theory Spec2Isabelle
  imports Complex_Main "HOL-Library.AList"
begin

section \<open>Python strings and paths\<close>

text \<open>
  A Python \<open>str\<close> is modelled as a \<open>string\<close> whose characters are the code points
  below 256 (Latin-1); \<open>bytes.decode("latin-1")\<close> is then the identity on the
  characters.  \<open>str.lower\<close> maps \<open>A\<close>..\<open>Z\<close> and the upper-case Latin-1 letters
  (192..222 without the multiplication sign 215) to the code point 32 above, which is
  the same character with bit 5 set.
\<close>

definition lower_char :: "char \<Rightarrow> char" where
  "lower_char c =
     (let n = (of_char c :: nat)
      in if (65 \<le> n \<and> n \<le> 90) \<or> (192 \<le> n \<and> n \<le> 222 \<and> n \<noteq> 215)
         then Char (digit0 c) (digit1 c) (digit2 c) (digit3 c) (digit4 c) True (digit6 c) (digit7 c)
         else c)"

definition str_lower :: "string \<Rightarrow> string" where
  "str_lower s = map lower_char s"

text \<open>\<open>str.isspace\<close> on the code points below 256, and \<open>str.lstrip()\<close>.\<close>

definition isspace :: "char \<Rightarrow> bool" where
  "isspace c = (of_char c \<in> set [9, 10, 11, 12, 13, 28, 29, 30, 31, 32, 133, 160 :: nat])"

definition str_lstrip :: "string \<Rightarrow> string" where
  "str_lstrip s = dropWhile isspace s"

text \<open>\<open>s.split(sep)\<close> for a one-character separator: never the empty list.\<close>

fun split_loop :: "char \<Rightarrow> string \<Rightarrow> string \<Rightarrow> string list" where
  "split_loop sep [] cur = [rev cur]"
| "split_loop sep (c # cs) cur =
     (if c = sep then rev cur # split_loop sep cs [] else split_loop sep cs (c # cur))"

definition str_split :: "string \<Rightarrow> char \<Rightarrow> string list" where
  "str_split s sep = split_loop sep s []"

text \<open>\<open>sub in s\<close> for two strings: \<open>sub\<close> occurs in \<open>s\<close> as a contiguous run.\<close>

fun startswith :: "string \<Rightarrow> string \<Rightarrow> bool" where
  "startswith s [] = True"
| "startswith [] (p # ps) = False"
| "startswith (c # cs) (p # ps) = (c = p \<and> startswith cs ps)"

fun str_contains :: "string \<Rightarrow> string \<Rightarrow> bool" where
  "str_contains [] sub = (sub = [])"
| "str_contains (c # cs) sub = (startswith (c # cs) sub \<or> str_contains cs sub)"

text \<open>\<open>s.rfind(c)\<close>: the last index of \<open>c\<close>, or \<open>-1\<close>.\<close>

definition rfind :: "string \<Rightarrow> char \<Rightarrow> int" where
  "rfind s c =
     (if c \<in> set s
      then int (length s) - 1 - int (length (takeWhile (\<lambda>x. x \<noteq> c) (rev s)))
      else - 1)"

text \<open>
  \<open>os.path.splitext\<close> and \<open>os.path.split\<close> of \<open>posixpath\<close>: the extension starts at
  the last dot of the last path component, unless only dots stand before it there; the
  head of a split loses its trailing slashes unless it consists of slashes.
\<close>

definition splitext :: "string \<Rightarrow> string \<times> string" where
  "splitext p =
     (let sepIndex = rfind p CHR ''/'';
          dotIndex = rfind p CHR ''.''
      in if dotIndex > sepIndex \<and>
            list_ex (\<lambda>c. c \<noteq> CHR ''.'')
              (take (nat (dotIndex - (sepIndex + 1))) (drop (nat (sepIndex + 1)) p))
         then (take (nat dotIndex) p, drop (nat dotIndex) p)
         else (p, []))"

definition str_rstrip :: "string \<Rightarrow> char \<Rightarrow> string" where
  "str_rstrip s c = rev (dropWhile (\<lambda>x. x = c) (rev s))"

definition os_path_split :: "string \<Rightarrow> string \<times> string" where
  "os_path_split p =
     (let i = nat (rfind p CHR ''/'' + 1);
          head = take i p;
          tail = drop i p
      in if head \<noteq> [] \<and> head \<noteq> replicate (length head) CHR ''/''
         then (str_rstrip head CHR ''/'', tail)
         else (head, tail))"

section \<open>Values, errors and plugins\<close>

datatype pyvalue = PyNone | PyBool bool | PyInt int | PyStr string

type_synonym kwargs = "(string \<times> pyvalue) list"

text \<open>
  The exceptions of the modelled functions, one constructor per \<open>raise\<close> and per
  failing operation, with the values the message is formatted from.
\<close>

datatype error =
    IOError_NoFilenameMatches string
  | IOError_CouldNotRead string
  | ValueError_RecordBy string
  | ValueError_DataType string
  | ValueError_SignalDimension int
  | ValueError_NoSignalsMatch string int string
  | ValueError_UnsupportedExtension string
  | ValueError_CannotWriteData "string list"
  | ValueError_Overwrite string
  | ValueError_LastDimensions
  | ValueError_NaN
  | AttributeError
  | TypeError
  | KeyError string
  | IndexError
  | ZeroDivisionError
  | OverflowError
  | ExternalError string

text \<open>
  Interpreted metadata: a dictionary of nodes (\<open>General\<close>, \<open>Signal\<close>, ...), each a
  dictionary of string-valued fields, in insertion order.
\<close>

type_synonym metadata = "(string \<times> (string \<times> string) list) list"

record ndarray =
  dtype_name :: string
  itemsize :: nat
  shape :: "nat list"

definition nbytes :: "ndarray \<Rightarrow> nat" where
  "nbytes a = prod_list (shape a) * itemsize a"

record signal_dict =
  sd_data :: "ndarray option"
  sd_metadata :: "metadata option"

text \<open>A registered signal class, with the class attributes the resolver reads.\<close>

record signal_class =
  class_name :: string
  cls_lazy :: bool
  cls_dtype :: string
  cls_signal_dimension :: int
  cls_signal_type :: string
  cls_alias_signal_types :: "string list"

record axes_manager =
  am_signal_dimension :: nat
  am_navigation_dimension :: nat

record tmp_parameters =
  tmp_folder :: "string option"
  tmp_filename :: "string option"
  tmp_extension :: "string option"

record signal =
  sig_class :: signal_class
  sig_data :: ndarray
  sig_metadata :: "metadata option"
  sig_axes_manager :: axes_manager
  sig_tmp_parameters :: tmp_parameters

text \<open>
  The \<open>writes\<close> attribute of a plugin: \<open>True\<close>, \<open>False\<close>, or a list of
  (signal dimension, navigation dimension) pairs.
\<close>

datatype writes = WritesBool bool | WritesShapes "(nat \<times> nat) list"

record plugin =
  format_name :: string
  file_extensions :: "string list"
  default_extension :: nat
  writes :: writes
  footprint :: "string list option"
  manufacturer :: "string option"
  file_reader :: "string \<Rightarrow> bool \<Rightarrow> kwargs \<Rightarrow> error + signal_dict list"
  file_writer :: "string \<Rightarrow> signal \<Rightarrow> kwargs \<Rightarrow> error option"

text \<open>
  The plugin of \<open>io/plugins/emsoft_ecp_master_pattern.py\<close>; its reader and the (unused)
  writer are parameters.
\<close>

definition emsoft_ecp_master_pattern ::
  "(string \<Rightarrow> bool \<Rightarrow> kwargs \<Rightarrow> error + signal_dict list) \<Rightarrow> plugin" where
  "emsoft_ecp_master_pattern rd =
     \<lparr> format_name = ''emsoft_ecp_master_pattern'',
       file_extensions = [''h5'', ''hdf5''],
       default_extension = 0,
       writes = WritesBool False,
       footprint = Some [''emdata/ecpmaster''],
       manufacturer = None,
       file_reader = rd,
       file_writer = (\<lambda>f s k. Some AttributeError) \<rparr>"

section \<open>Footprint matcher (\<open>_plugin_from_footprints\<close>)\<close>

text \<open>
  An HDF5 file is its root group: the members in iteration order, each a group or a
  dataset with the value \<open>dataset[()]\<close> reads.
\<close>

datatype h5value = H5Bytes string | H5Str string | H5Array "h5value list" | H5Other

datatype h5node = Group "(string \<times> h5node) list" | Dataset h5value

text \<open>
  The nested dictionary \<open>_hdf5group2dict\<close> builds: a group becomes a dictionary, a
  member named \<open>manufacturer\<close> keeps its key as written, every other member is \<open>1\<close>.
\<close>

datatype smap = SDict "(string \<times> smap) list" | SKey string | SOne

fun hdf5group2dict_loop ::
  "(string \<times> h5node) list \<Rightarrow> (string \<times> smap) list \<Rightarrow> (string \<times> smap) list" where
  "hdf5group2dict_loop [] d = d"
| "hdf5group2dict_loop ((key, Group items) # rest) d =
     hdf5group2dict_loop rest
       (AList.update (str_lower (str_lstrip key)) (SDict (hdf5group2dict_loop items [])) d)"
| "hdf5group2dict_loop ((key, Dataset v) # rest) d =
     (let key_lower = str_lower (str_lstrip key)
      in hdf5group2dict_loop rest
           (AList.update key_lower (if key_lower = ''manufacturer'' then SKey key else SOne) d))"

definition hdf5group2dict :: "(string \<times> h5node) list \<Rightarrow> (string \<times> smap) list" where
  "hdf5group2dict grp = hdf5group2dict_loop grp []"

text \<open>
  \<open>_exists(obj, chain)\<close>.  \<open>key in obj\<close> is key membership for a dictionary, a substring
  test for a string (and then \<open>obj[key]\<close> raises \<open>TypeError\<close>), and a \<open>TypeError\<close> for the
  integer \<open>1\<close>.  A missing key returns \<open>None\<close>.
\<close>

fun exists_chain :: "smap \<Rightarrow> string list \<Rightarrow> error + smap option" where
  "exists_chain obj [] = Inl IndexError"
| "exists_chain (SDict items) (key # chain) =
     (case map_of items key of
        None \<Rightarrow> Inr None
      | Some v \<Rightarrow> if chain \<noteq> [] then exists_chain v chain else Inr (Some v))"
| "exists_chain (SKey s) (key # chain) =
     (if str_contains s key then Inl TypeError else Inr None)"
| "exists_chain SOne (key # chain) = Inl TypeError"

text \<open>
  \<open>f[val][()]\<close> followed by the unwrapping of a length-1 array and the decoding of
  bytes.  \<open>val\<close> is the value stored under \<open>manufacturer\<close> in the dictionary.
\<close>

definition read_manufacturer :: "(string \<times> h5node) list \<Rightarrow> smap \<Rightarrow> error + h5value" where
  "read_manufacturer f val =
     (case val of
        SKey k \<Rightarrow>
          (case map_of f k of
             None \<Rightarrow> Inl (KeyError k)
           | Some (Group g) \<Rightarrow> Inl TypeError
           | Some (Dataset man) \<Rightarrow>
               (let man1 = (case man of H5Array [x] \<Rightarrow> x | _ \<Rightarrow> man);
                    man2 = (case man1 of H5Bytes b \<Rightarrow> H5Str b | _ \<Rightarrow> man1)
                in Inr man2))
      | _ \<Rightarrow> Inl TypeError)"

text \<open>
  The inner loop over the plugins with a manufacturer: \<open>man.lower()\<close> is evaluated
  once per plugin and raises \<open>AttributeError\<close> unless \<open>man\<close> is a string.
\<close>

fun match_manufacturer :: "h5value \<Rightarrow> plugin list \<Rightarrow> error + plugin option" where
  "match_manufacturer man [] = Inr None"
| "match_manufacturer man (p # ps) =
     (case man of
        H5Str s \<Rightarrow>
          if Some (str_lower s) = manufacturer p then Inr (Some p)
          else match_manufacturer man ps
      | _ \<Rightarrow> Inl AttributeError)"

text \<open>The loop over \<open>d.items()\<close>, threading \<open>matching_plugin\<close>.\<close>

fun manufacturer_pass ::
  "(string \<times> h5node) list \<Rightarrow> (string \<times> smap) list \<Rightarrow> plugin list \<Rightarrow> plugin option
   \<Rightarrow> error + plugin option" where
  "manufacturer_pass f [] pwm matching_plugin = Inr matching_plugin"
| "manufacturer_pass f ((key, val) # items) pwm matching_plugin =
     (if key = ''manufacturer'' then
        (case read_manufacturer f val of
           Inl e \<Rightarrow> Inl e
         | Inr man \<Rightarrow>
             (case match_manufacturer man pwm of
                Inl e \<Rightarrow> Inl e
              | Inr None \<Rightarrow> manufacturer_pass f items pwm matching_plugin
              | Inr (Some p) \<Rightarrow> manufacturer_pass f items pwm (Some p)))
      else manufacturer_pass f items pwm matching_plugin)"

text \<open>The count \<open>n_matches\<close> of the footprint paths of one plugin that exist.\<close>

fun n_matches :: "(string \<times> smap) list \<Rightarrow> string list \<Rightarrow> error + nat" where
  "n_matches d [] = Inr 0"
| "n_matches d (fp # fps) =
     (case exists_chain (SDict d) (str_split (str_lower fp) CHR ''/'') of
        Inl e \<Rightarrow> Inl e
      | Inr r \<Rightarrow>
          (case n_matches d fps of
             Inl e \<Rightarrow> Inl e
           | Inr n \<Rightarrow> Inr (if r \<noteq> None then n + 1 else n)))"

text \<open>The loop over the plugins with a footprint: the first full match ends it.\<close>

fun structural_pass :: "(string \<times> smap) list \<Rightarrow> plugin list \<Rightarrow> error + plugin option" where
  "structural_pass d [] = Inr None"
| "structural_pass d (p # ps) =
     (case footprint p of
        None \<Rightarrow> Inl AttributeError
      | Some fps \<Rightarrow>
          (case n_matches d fps of
             Inl e \<Rightarrow> Inl e
           | Inr n \<Rightarrow> if n = length fps then Inr (Some p) else structural_pass d ps))"

definition plugins_with_footprints :: "plugin list \<Rightarrow> plugin list" where
  "plugins_with_footprints plugins = filter (\<lambda>p. footprint p \<noteq> None) plugins"

definition plugins_with_manufacturer :: "plugin list \<Rightarrow> plugin list" where
  "plugins_with_manufacturer plugins =
     filter (\<lambda>p. manufacturer p \<noteq> None) (plugins_with_footprints plugins)"

text \<open>
  \<open>_plugin_from_footprints\<close>, on the root group of the opened file.  \<open>Inr None\<close> is the
  returned \<open>None\<close>.
\<close>

definition plugin_from_footprints ::
  "(string \<times> h5node) list \<Rightarrow> plugin list \<Rightarrow> error + plugin option" where
  "plugin_from_footprints f plugins =
     (let d = hdf5group2dict f
      in case manufacturer_pass f d (plugins_with_manufacturer plugins) None of
           Inl e \<Rightarrow> Inl e
         | Inr (Some p) \<Rightarrow> Inr (Some p)
         | Inr None \<Rightarrow> structural_pass d (plugins_with_footprints plugins))"

text \<open>
  Resolution of a path in the structure map, in the words of the specification: a
  recursive lookup that follows one key per nested dictionary and ends on the entry
  found under the last key.
\<close>

fun lookup_path :: "smap \<Rightarrow> string list \<Rightarrow> smap option" where
  "lookup_path (SDict items) (key # chain) =
     (case map_of items key of
        None \<Rightarrow> None
      | Some v \<Rightarrow> if chain = [] then Some v else lookup_path v chain)"
| "lookup_path obj chain = None"

text \<open>
  A footprint path is present when its lower-cased segments resolve; a plugin matches
  fully when it has a footprint and every path of it is present.
\<close>

definition present :: "(string \<times> smap) list \<Rightarrow> string \<Rightarrow> bool" where
  "present d fp = (lookup_path (SDict d) (str_split (str_lower fp) CHR ''/'') \<noteq> None)"

definition fully_matches :: "(string \<times> smap) list \<Rightarrow> plugin \<Rightarrow> bool" where
  "fully_matches d p =
     (case footprint p of None \<Rightarrow> False | Some fps \<Rightarrow> list_all (present d) fps)"

section \<open>Signal resolver (\<open>_assign_signal_subclass\<close>)\<close>

definition dtype_understood :: "string \<Rightarrow> bool" where
  "dtype_understood name =
     (str_contains name ''float'' \<or> str_contains name ''int'' \<or> str_contains name ''void''
      \<or> str_contains name ''bool'' \<or> str_contains name ''object'')"

text \<open>
  The three list comprehensions after the filter on \<open>_lazy\<close>.  The registry is the
  list of classes \<open>find_subclasses(kikuchipy.signals, BaseSignal)\<close> yields.
\<close>

definition dtype_dim_type_matches ::
  "signal_class list \<Rightarrow> string \<Rightarrow> int \<Rightarrow> string \<Rightarrow> bool \<Rightarrow> signal_class list" where
  "dtype_dim_type_matches registry dtype signal_dimension signal_type lazy =
     (let signals = filter (\<lambda>v. cls_lazy v = lazy) registry;
          dtype_matches = filter (\<lambda>s. cls_dtype s = dtype) signals;
          dtype_dim_matches =
            filter (\<lambda>s. cls_signal_dimension s = signal_dimension) dtype_matches
      in filter
           (\<lambda>s. signal_type = cls_signal_type s \<or> signal_type \<in> set (cls_alias_signal_types s))
           dtype_dim_matches)"

text \<open>
  \<open>dtype\<close> is rebound to \<open>"real"\<close> before the filters and before the last error
  message is formatted, so that message names \<open>'real'\<close>, not the name of the input
  data type.
\<close>

definition assign_signal_subclass ::
  "signal_class list \<Rightarrow> string \<Rightarrow> int \<Rightarrow> string \<Rightarrow> bool \<Rightarrow> error + signal_class" where
  "assign_signal_subclass registry dtype signal_dimension signal_type lazy =
     (if \<not> dtype_understood dtype then Inl (ValueError_DataType dtype)
      else if signal_dimension < 0 then Inl (ValueError_SignalDimension signal_dimension)
      else
        (case dtype_dim_type_matches registry ''real'' signal_dimension signal_type lazy of
           [m] \<Rightarrow> Inr m
         | _ \<Rightarrow> Inl (ValueError_NoSignalsMatch ''real'' signal_dimension signal_type)))"

section \<open>Signal construction (\<open>_dict2signal\<close>)\<close>

text \<open>
  The check of \<open>Signal.record_by\<close>: the metadata after it, or the \<open>ValueError\<close>.  The
  field is deleted from the \<open>Signal\<close> node when it is there and equal to \<open>"image"\<close>.
\<close>

definition check_record_by :: "metadata \<Rightarrow> error + metadata" where
  "check_record_by md =
     (case map_of md ''Signal'' of
        None \<Rightarrow> Inr md
      | Some node \<Rightarrow>
          (case map_of node ''record_by'' of
             None \<Rightarrow> Inr md
           | Some record_by \<Rightarrow>
               if record_by \<noteq> ''image'' then Inl (ValueError_RecordBy record_by)
               else Inr (AList.update ''Signal'' (AList.delete ''record_by'' node) md)))"

definition md_signal_type :: "metadata \<Rightarrow> string" where
  "md_signal_type md =
     (case map_of md ''Signal'' of
        None \<Rightarrow> []
      | Some node \<Rightarrow> (case map_of node ''signal_type'' of None \<Rightarrow> [] | Some t \<Rightarrow> t))"

text \<open>
  \<open>_dict2signal\<close>.  The constructor call \<open>cls(**signal_dict)\<close> of the selected class
  is the parameter \<open>new_signal\<close>; \<open>_make_lazy\<close> is part of it.
\<close>

definition dict2signal ::
  "signal_class list \<Rightarrow> (signal_class \<Rightarrow> signal_dict \<Rightarrow> error + signal) \<Rightarrow> signal_dict \<Rightarrow> bool
   \<Rightarrow> error + signal" where
  "dict2signal registry new_signal signal_dict lazy =
     (case (case sd_metadata signal_dict of
              None \<Rightarrow> Inr (None, [])
            | Some md \<Rightarrow>
                (case check_record_by md of
                   Inl e \<Rightarrow> Inl e
                 | Inr md' \<Rightarrow> Inr (Some md', md_signal_type md'))) of
        Inl e \<Rightarrow> Inl e
      | Inr (md', signal_type) \<Rightarrow>
          (case sd_data signal_dict of
             None \<Rightarrow> Inl (KeyError ''data'')
           | Some data \<Rightarrow>
               (case assign_signal_subclass registry (dtype_name data) 2 signal_type lazy of
                  Inl e \<Rightarrow> Inl e
                | Inr cls \<Rightarrow> new_signal cls (signal_dict \<lparr> sd_metadata := md' \<rparr>))))"

section \<open>Format dispatcher: \<open>load\<close>\<close>

text \<open>
  What the functions see of the file system and of the terminal: the answers of
  \<open>os.path.isfile\<close>, \<open>glob.glob\<close>, \<open>h5py.is_hdf5\<close>, the root group \<open>h5py.File\<close> opens,
  \<open>os.path.abspath\<close>, \<open>_ensure_directory\<close> (an error or nothing), the prompt
  \<open>_get_input_bool\<close> and hyperspy's \<open>overwrite\<close> prompt.
\<close>

record world =
  isfile :: "string \<Rightarrow> bool"
  glob :: "string \<Rightarrow> string list"
  is_hdf5 :: "string \<Rightarrow> bool"
  h5py_File :: "string \<Rightarrow> (string \<times> h5node) list"
  abspath :: "string \<Rightarrow> string"
  ensure_directory :: "string \<Rightarrow> error option"
  get_input_bool :: "string \<Rightarrow> bool"
  overwrite_method :: "string \<Rightarrow> bool"

text \<open>
  The loop over the signal dictionaries.  \<open>filename\<close> is rebound in the loop body, so the
  next round starts from the stem of this one.
\<close>

fun load_loop ::
  "signal_class list \<Rightarrow> (signal_class \<Rightarrow> signal_dict \<Rightarrow> error + signal) \<Rightarrow> world \<Rightarrow> bool
   \<Rightarrow> signal_dict list \<Rightarrow> string \<Rightarrow> signal list \<Rightarrow> error + signal list" where
  "load_loop registry new_signal w lazy [] filename out = Inr out"
| "load_loop registry new_signal w lazy (sd # sds) filename out =
     (case dict2signal registry new_signal sd lazy of
        Inl e \<Rightarrow> Inl e
      | Inr s \<Rightarrow>
          (let (directory, filename1) = os_path_split (abspath w filename);
               (filename2, extension) = splitext filename1;
               s' = s \<lparr> sig_tmp_parameters :=
                       \<lparr> tmp_folder = Some directory,
                         tmp_filename = Some filename2,
                         tmp_extension = Some (filter (\<lambda>c. c \<noteq> CHR ''.'') extension) \<rparr> \<rparr>
           in load_loop registry new_signal w lazy sds filename2 (out @ [s'])))"

datatype load_result = Single signal | Many "signal list"

text \<open>
  \<open>load\<close>.  When \<open>_plugin_from_footprints\<close> returns \<open>None\<close>, the attribute access
  \<open>reader.file_reader\<close> raises \<open>AttributeError\<close>.
\<close>

definition load ::
  "plugin list \<Rightarrow> signal_class list \<Rightarrow> (signal_class \<Rightarrow> signal_dict \<Rightarrow> error + signal) \<Rightarrow> world
   \<Rightarrow> string \<Rightarrow> bool \<Rightarrow> kwargs \<Rightarrow> error + load_result" where
  "load plugins registry new_signal w filename lazy kwargs =
     (if \<not> isfile w filename \<and> glob w filename = []
      then Inl (IOError_NoFilenameMatches filename)
      else
        (let extension = drop 1 (snd (splitext filename));
             readers = filter (\<lambda>p. str_lower extension \<in> set (file_extensions p)) plugins
         in case readers of
              [] \<Rightarrow> Inl (IOError_CouldNotRead filename)
            | r # rs \<Rightarrow>
                (case (if length readers > 1 \<and> is_hdf5 w filename
                       then plugin_from_footprints (h5py_File w filename) readers
                       else Inr (Some r)) of
                   Inl e \<Rightarrow> Inl e
                 | Inr None \<Rightarrow> Inl AttributeError
                 | Inr (Some reader) \<Rightarrow>
                     (case file_reader reader filename lazy kwargs of
                        Inl e \<Rightarrow> Inl e
                      | Inr signal_dicts \<Rightarrow>
                          (case load_loop registry new_signal w lazy signal_dicts filename [] of
                             Inl e \<Rightarrow> Inl e
                           | Inr out \<Rightarrow>
                               Inr (case out of [s] \<Rightarrow> Single s | _ \<Rightarrow> Many out))))))"

section \<open>Format dispatcher: \<open>_save\<close>\<close>

text \<open>
  The \<open>overwrite\<close> argument: \<open>None\<close>, \<open>True\<close>, \<open>False\<close>, or any other value (shown by
  its text).  The truth value of \<open>plugin.writes\<close>, and the test that a plugin can write
  a (signal dimension, navigation dimension) pair.
\<close>

datatype overwrite_arg = OverwriteNone | OverwriteBool bool | OverwriteOther string

fun writes_truthy :: "writes \<Rightarrow> bool" where
  "writes_truthy (WritesBool b) = b"
| "writes_truthy (WritesShapes xs) = (xs \<noteq> [])"

fun can_write :: "writes \<Rightarrow> nat \<times> nat \<Rightarrow> bool" where
  "can_write (WritesBool b) sdnd = b"
| "can_write (WritesShapes xs) sdnd = (sdnd \<in> set xs)"

text \<open>One call of a plugin's \<open>file_writer\<close>: the plugin, the file, the keyword arguments.\<close>

record write_call =
  wc_format_name :: string
  wc_filename :: string
  wc_kwargs :: kwargs

text \<open>
  The outcome of \<open>_save\<close>: the exception that left it (if any), the signal afterwards
  and the calls of \<open>file_writer\<close> made.
\<close>

record save_result =
  sr_raised :: "error option"
  sr_signal :: signal
  sr_writer_calls :: "write_call list"

text \<open>
  The block "check if we are to add signal to an already existing h5ebsd file": the
  \<open>overwrite\<close> value and the keyword arguments after it.
\<close>

definition add_scan_step ::
  "world \<Rightarrow> plugin \<Rightarrow> string \<Rightarrow> bool \<Rightarrow> overwrite_arg \<Rightarrow> bool option \<Rightarrow> kwargs
   \<Rightarrow> overwrite_arg \<times> kwargs" where
  "add_scan_step w writer filename is_file overwrite add_scan kwargs =
     (if format_name writer = ''kikuchipy_h5ebsd'' \<and> overwrite \<noteq> OverwriteBool True \<and> is_file
      then
        (let add_scan1 = (case add_scan of None \<Rightarrow> get_input_bool w filename | Some b \<Rightarrow> b);
             overwrite1 = (if add_scan1 then OverwriteBool True else overwrite)
         in (overwrite1, AList.update ''add_scan'' (PyBool add_scan1) kwargs))
      else (overwrite, kwargs))"

text \<open>The block "determine if signal is to be written to file or not".\<close>

definition decide_write :: "world \<Rightarrow> string \<Rightarrow> bool \<Rightarrow> overwrite_arg \<Rightarrow> error + bool" where
  "decide_write w filename is_file overwrite =
     (case overwrite of
        OverwriteNone \<Rightarrow> Inr (overwrite_method w filename)
      | OverwriteBool True \<Rightarrow> Inr True
      | OverwriteBool False \<Rightarrow> Inr (\<not> is_file)
      | OverwriteOther v \<Rightarrow> Inl (ValueError_Overwrite v))"

definition raised :: "error \<Rightarrow> signal \<Rightarrow> save_result" where
  "raised e s = \<lparr> sr_raised = Some e, sr_signal = s, sr_writer_calls = [] \<rparr>"

text \<open>
  The extension and the file name \<open>_save\<close> works with (a name without extension gets
  \<open>.h5\<close>), and the first plugin that lists the extension and writes.
\<close>

definition save_ext :: "string \<Rightarrow> string" where
  "save_ext filename =
     (let ext = drop 1 (snd (splitext filename)) in if ext = [] then ''h5'' else ext)"

definition save_filename :: "string \<Rightarrow> string" where
  "save_filename filename =
     (if drop 1 (snd (splitext filename)) = [] then filename @ ''.'' @ ''h5'' else filename)"

definition find_writer :: "plugin list \<Rightarrow> string \<Rightarrow> plugin option" where
  "find_writer plugins ext =
     find (\<lambda>p. str_lower ext \<in> set (file_extensions p) \<and> writes_truthy (writes p)) plugins"

definition save ::
  "plugin list \<Rightarrow> world \<Rightarrow> string \<Rightarrow> signal \<Rightarrow> overwrite_arg \<Rightarrow> bool option \<Rightarrow> kwargs
   \<Rightarrow> save_result" where
  "save plugins w filename0 s overwrite add_scan kwargs =
     (let ext = save_ext filename0;
          filename = save_filename filename0
      in case find_writer plugins ext of
           None \<Rightarrow> raised (ValueError_UnsupportedExtension ext) s
         | Some writer \<Rightarrow>
             (let sd = am_signal_dimension (sig_axes_manager s);
                  nd = am_navigation_dimension (sig_axes_manager s)
              in if writes writer \<noteq> WritesBool True \<and> \<not> can_write (writes writer) (sd, nd)
                 then raised (ValueError_CannotWriteData
                        (map format_name (filter (\<lambda>p. can_write (writes p) (sd, nd)) plugins))) s
                 else
                   (case ensure_directory w filename of
                      Some e \<Rightarrow> raised e s
                    | None \<Rightarrow>
                        (let is_file = isfile w filename;
                             (overwrite1, kwargs1) =
                               add_scan_step w writer filename is_file overwrite add_scan kwargs
                         in case decide_write w filename is_file overwrite1 of
                              Inl e \<Rightarrow> raised e s
                            | Inr write \<Rightarrow>
                                if write then
                                  (let call = \<lparr> wc_format_name = format_name writer,
                                                wc_filename = filename,
                                                wc_kwargs = kwargs1 \<rparr>
                                   in case file_writer writer filename s kwargs1 of
                                        Some e \<Rightarrow>
                                          \<lparr> sr_raised = Some e, sr_signal = s,
                                            sr_writer_calls = [call] \<rparr>
                                      | None \<Rightarrow>
                                          (let (directory, filename1) =
                                                 os_path_split (abspath w filename)
                                           in \<lparr> sr_raised = None,
                                                sr_signal = s \<lparr> sig_tmp_parameters :=
                                                  \<lparr> tmp_folder = Some directory,
                                                    tmp_filename = Some (fst (splitext filename1)),
                                                    tmp_extension = Some ext \<rparr> \<rparr>,
                                                sr_writer_calls = [call] \<rparr>))
                                else \<lparr> sr_raised = None, sr_signal = s,
                                       sr_writer_calls = [] \<rparr>))))"

section \<open>Chunk planner (\<open>get_chunking\<close>)\<close>

text \<open>
  One entry of the dictionary handed to dask's \<open>normalize_chunks\<close>: the string
  \<open>"auto"\<close> or an integer, where \<open>-1\<close> asks for the whole axis.  The routine itself is
  a parameter: it gets the dictionary (in insertion order), the shape, the byte limit
  and the data type, and returns the block lengths along each axis or raises.
\<close>

datatype chunk = Auto | Blocksize int

type_synonym 'l normalizer =
  "(nat \<times> chunk) list \<Rightarrow> nat list option \<Rightarrow> 'l \<Rightarrow> string \<Rightarrow> error + nat list list"

text \<open>
  The part of the contract of dask's \<open>normalize_chunks\<close> that the planners rely on:
  an axis whose entry is \<open>-1\<close> comes back as one block of the length of the axis.
\<close>

definition honours_whole_axis :: "'l normalizer \<Rightarrow> bool" where
  "honours_whole_axis normalize_chunks =
     (\<forall>d shp l t r i.
        normalize_chunks d (Some shp) l t = Inr r \<and> map_of d i = Some (Blocksize (- 1)) \<and>
        i < length shp \<longrightarrow> i < length r \<and> r ! i = [shp ! i])"

text \<open>
  \<open>get_chunking\<close>.  With a signal, shape and dimensions are read from it; the data type
  is read from the signal only when none is given, which fails without a signal.
\<close>

definition get_chunking ::
  "'l normalizer \<Rightarrow> signal option \<Rightarrow> nat list option \<Rightarrow> nat option \<Rightarrow> nat option \<Rightarrow> int option
   \<Rightarrow> 'l \<Rightarrow> string option \<Rightarrow> error + nat list list" where
  "get_chunking normalize_chunks sig data_shape nav_dim sig_dim chunk_shape chunk_bytes dtype =
     (let data_shape1 = (case sig of None \<Rightarrow> data_shape | Some s \<Rightarrow> Some (shape (sig_data s)));
          nav_dim1 = (case sig of None \<Rightarrow> nav_dim
                      | Some s \<Rightarrow> Some (am_navigation_dimension (sig_axes_manager s)));
          sig_dim1 = (case sig of None \<Rightarrow> sig_dim
                      | Some s \<Rightarrow> Some (am_signal_dimension (sig_axes_manager s)))
      in case (case dtype of
                 Some t \<Rightarrow> Inr t
               | None \<Rightarrow> (case sig of None \<Rightarrow> Inl AttributeError
                           | Some s \<Rightarrow> Inr (dtype_name (sig_data s)))) of
           Inl e \<Rightarrow> Inl e
         | Inr dtype1 \<Rightarrow>
             (case nav_dim1 of
                None \<Rightarrow> Inl TypeError
              | Some nav \<Rightarrow>
                  (let chunks_dict0 =
                         fold (\<lambda>i. AList.update i
                                 (case chunk_shape of None \<Rightarrow> Auto | Some c \<Rightarrow> Blocksize c))
                           [0..<nav] []
                   in case sig_dim1 of
                        None \<Rightarrow> Inl TypeError
                      | Some sg \<Rightarrow>
                          (let chunks_dict =
                                 fold (\<lambda>i. AList.update i (Blocksize (- 1)))
                                   [nav..<nav + sg] chunks_dict0
                           in normalize_chunks chunks_dict data_shape1 chunk_bytes dtype1))))"

section \<open>Rechunk planner (\<open>_reduce_chunks\<close>)\<close>

text \<open>
  A dask array, as far as the planner reads it: \<open>.chunks\<close>, the block lengths along
  each axis.  \<open>.shape\<close> is their sums and \<open>.chunksize\<close> their maxima.
\<close>

record dask_array =
  da_chunks :: "nat list list"

definition da_shape :: "dask_array \<Rightarrow> nat list" where
  "da_shape a = map sum_list (da_chunks a)"

definition da_chunksize :: "dask_array \<Rightarrow> nat list" where
  "da_chunksize a = map (\<lambda>c. fold max c 0) (da_chunks a)"

text \<open>\<open>np.argmin\<close>: the first index of the minimum.\<close>

definition argmin :: "nat list \<Rightarrow> nat" where
  "argmin xs = length (takeWhile (\<lambda>x. x \<noteq> fold min xs (hd xs)) xs)"

text \<open>
  numpy's 64-bit integers: \<open>np.prod\<close> of the chunk extents is an \<open>int64\<close>, the product
  of a Python integer with it is an \<open>int64\<close> again, and each multiplication wraps
  around.  \<open>int64 x\<close> is the value of \<open>x\<close> in the signed 64-bit range.
\<close>

definition int64 :: "int \<Rightarrow> int" where
  "int64 x = (x + 2 ^ 63) mod 2 ^ 64 - 2 ^ 63"

definition np_prod :: "nat list \<Rightarrow> int" where
  "np_prod xs = fold (\<lambda>x acc. int64 (acc * int x)) xs 1"

text \<open>
  The left side of the test in \<open>_reduce_chunks\<close>:
  \<open>nav_chunksize[idx_min] * np.prod(chunksize[-2:]) * 4\<close>.
\<close>

definition merge_test_value :: "nat list \<Rightarrow> nat \<Rightarrow> int" where
  "merge_test_value chunksize idx_min =
     int64 (int64 (int (take (length chunksize - 2) chunksize ! idx_min)
                   * np_prod (drop (length chunksize - 2) chunksize)) * 4)"

text \<open>
  The dictionary \<open>chunks_dict\<close> as it stands when \<open>normalize_chunks\<close> is called:
  \<open>"auto"\<close> on the navigation axes, \<open>-1\<close> on the two signal axes, and with two
  navigation axes \<open>-1\<close> on the one with the smaller chunk extent when the value above is
  under \<open>chunk_bytes\<close> (the comparison of the integer with the float is taken as exact).
\<close>

definition reduce_chunks_dict :: "dask_array \<Rightarrow> real \<Rightarrow> (nat \<times> chunk) list" where
  "reduce_chunks_dict dask_array chunk_bytes =
     (let chunksize = da_chunksize dask_array;
          nav_chunksize = take (length chunksize - 2) chunksize;
          nav_ndim = length nav_chunksize;
          chunks_dict0 = map (\<lambda>i. (i, Auto)) [0..<nav_ndim];
          chunks_dict1 =
            fold (\<lambda>i. AList.update i (Blocksize (- 1))) [nav_ndim..<nav_ndim + 2] chunks_dict0
      in if nav_ndim = 2 then
           (let idx_min = argmin nav_chunksize
            in if real_of_int (merge_test_value chunksize idx_min) < chunk_bytes
               then AList.update idx_min (Blocksize (- 1)) chunks_dict1
               else chunks_dict1)
         else chunks_dict1)"

text \<open>
  In the words of the specification: the bytes of one chunk of a rank-4 array once the
  navigation axis \<open>idx\<close> is merged into a single block of the whole axis, the other
  axes keeping their chunk extents, at \<open>bytes_per_element\<close> bytes per element.
\<close>

definition merged_chunk_bytes :: "dask_array \<Rightarrow> nat \<Rightarrow> nat \<Rightarrow> nat" where
  "merged_chunk_bytes a idx bytes_per_element =
     da_shape a ! idx * da_chunksize a ! (1 - idx) * prod_list (drop 2 (da_chunksize a))
       * bytes_per_element"

text \<open>The loop that assembles \<open>new_chunks\<close> from the old and the normalised chunks.\<close>

fun new_chunks_loop ::
  "(nat \<times> chunk) list \<Rightarrow> nat list list \<Rightarrow> nat list list \<Rightarrow> nat list \<Rightarrow> error + nat list list"
  where
  "new_chunks_loop chunks_dict old_chunks chunks [] = Inr []"
| "new_chunks_loop chunks_dict old_chunks chunks (i # is) =
     (case map_of chunks_dict i of
        None \<Rightarrow> Inl (KeyError ''chunks_dict'')
      | Some c \<Rightarrow>
          (case (if c = Blocksize (- 1)
                 then (if i < length old_chunks then Inr (old_chunks ! i) else Inl IndexError)
                 else (if i < length chunks then Inr (chunks ! i) else Inl IndexError)) of
             Inl e \<Rightarrow> Inl e
           | Inr entry \<Rightarrow>
               (case new_chunks_loop chunks_dict old_chunks chunks is of
                  Inl e \<Rightarrow> Inl e
                | Inr rest \<Rightarrow> Inr (entry # rest))))"

definition reduce_chunks ::
  "real normalizer \<Rightarrow> dask_array \<Rightarrow> real \<Rightarrow> string \<Rightarrow> error + nat list list" where
  "reduce_chunks normalize_chunks dask_array chunk_bytes dtype_out =
     (let chunks_dict = reduce_chunks_dict dask_array chunk_bytes
      in case normalize_chunks chunks_dict (Some (da_shape dask_array)) chunk_bytes dtype_out of
           Inl e \<Rightarrow> Inl e
         | Inr chunks \<Rightarrow>
             new_chunks_loop chunks_dict (da_chunks dask_array) chunks
               [0..<length (da_chunksize dask_array)])"

section \<open>Decomposition chunk balancer (\<open>_rechunk_learning_results\<close>)\<close>

text \<open>
  The \<open>while\<close> loop on \<open>sizes\<close>: as long as the sum is not under \<open>suggested_size\<close>, the
  larger entry (the first one on a tie, as \<open>np.argmax\<close> picks it) is replaced by the
  floor of its half.  The byte sizes are natural numbers, on which the floats of the
  source are exact; a loop that does not end has the value \<open>None\<close>.
\<close>

partial_function (option) halve_loop :: "real \<Rightarrow> nat \<Rightarrow> nat \<Rightarrow> (nat \<times> nat) option" where
  "halve_loop suggested_size s0 s1 =
     (if real (s0 + s1) \<ge> suggested_size
      then (if s0 \<ge> s1 then halve_loop suggested_size (s0 div 2) s1
            else halve_loop suggested_size s0 (s1 div 2))
      else Some (s0, s1))"

text \<open>\<open>int(x)\<close> on a float: truncation towards zero.\<close>

definition py_int :: "real \<Rightarrow> int" where
  "py_int x = (if x \<ge> 0 then \<lfloor>x\<rfloor> else \<lceil>x\<rceil>)"

text \<open>
  \<open>_rechunk_learning_results\<close>, with \<open>-1\<close> for an unchunked axis.  Floats are modelled
  by the reals.  A division of a Python integer by a numpy float zero gives an infinity
  or a NaN, on which \<open>int\<close> raises \<open>OverflowError\<close> or \<open>ValueError\<close>; after the loop
  \<open>sizes[0]\<close> has been halved and is such a float, and \<open>sizes[1]\<close> is one unless
  \<open>loadings_size\<close> is zero.
\<close>

definition rechunk_learning_results ::
  "ndarray \<Rightarrow> ndarray \<Rightarrow> real \<Rightarrow> (error + (int \<times> int) list) option" where
  "rechunk_learning_results factors loadings mbytes_chunk =
     (if shape factors = [] \<or> shape loadings = [] then Some (Inl IndexError)
      else if last (shape factors) \<noteq> last (shape loadings)
      then Some (Inl ValueError_LastDimensions)
      else
        (let learning_results_shape = shape factors @ shape loadings;
             suggested_size = mbytes_chunk * 2 ^ 20;
             factors_size = nbytes factors;
             loadings_size = nbytes loadings;
             total_size = factors_size + loadings_size
         in if suggested_size = 0 then Some (Inl ZeroDivisionError)
            else
              (let num_chunks = real_of_int \<lceil>real total_size / suggested_size\<rceil>
               in if real factors_size \<le> suggested_size then
                    (if length learning_results_shape \<le> 2 then Some (Inl IndexError)
                     else if num_chunks = 0
                     then Some (Inl (if learning_results_shape ! 2 = 0 then ValueError_NaN
                                     else OverflowError))
                     else Some (Inr [(- 1, - 1),
                            (py_int (real (learning_results_shape ! 2) / num_chunks), - 1)]))
                  else
                    (case halve_loop suggested_size factors_size loadings_size of
                       None \<Rightarrow> None
                     | Some (sz0, sz1) \<Rightarrow>
                         if sz0 = 0 then Some (Inl OverflowError)
                         else if sz1 = 0
                         then Some (Inl (if loadings_size = 0 then ZeroDivisionError
                                         else OverflowError))
                         else
                           (let factors_chunks = \<lceil>real factors_size / real sz0\<rceil>;
                                loadings_chunks = \<lceil>real loadings_size / real sz1\<rceil>
                            in if factors_chunks = 0 then Some (Inl ZeroDivisionError)
                               else if length learning_results_shape \<le> 2
                               then Some (Inl IndexError)
                               else if loadings_chunks = 0 then Some (Inl ZeroDivisionError)
                               else Some (Inr
                                 [(py_int (real (learning_results_shape ! 0)
                                     / real_of_int factors_chunks), - 1),
                                  (py_int (real (learning_results_shape ! 2)
                                     / real_of_int loadings_chunks), - 1)]))))))"

section \<open>Example data\<close>

text \<open>
  Two plugins reading HDF5 files: the EMsoft ECP master pattern plugin with a reader
  that returns no signal, and an h5ebsd plugin of a vendor with a manufacturer tag.
  The file has the footprint of the first and the manufacturer of the second.
\<close>

definition example_ecp_plugin :: plugin where
  "example_ecp_plugin = emsoft_ecp_master_pattern (\<lambda>f l k. Inr [])"

definition example_vendor_plugin :: plugin where
  "example_vendor_plugin =
     \<lparr> format_name = ''example_h5ebsd'',
       file_extensions = [''h5'', ''hdf5'', ''h5ebsd''],
       default_extension = 0,
       writes = WritesBool False,
       footprint = Some [''manufacturer'', ''version''],
       manufacturer = Some ''edax'',
       file_reader = (\<lambda>f l k. Inr []),
       file_writer = (\<lambda>f s k. Some AttributeError) \<rparr>"

definition example_file :: "(string \<times> h5node) list" where
  "example_file =
     [(''EMData'', Group [(''ECPmaster'', Group [(''BetheParameters'', Dataset H5Other)])]),
      ('' Manufacturer'', Dataset (H5Array [H5Bytes ''EDAX'']))]"

text \<open>Three plugins whose footprints are partly, fully and fully present in \<open>a/b\<close>.\<close>

definition example_partial_plugin :: plugin where
  "example_partial_plugin =
     \<lparr> format_name = ''partial'',
       file_extensions = [''h5''],
       default_extension = 0,
       writes = WritesBool False,
       footprint = Some [''a/b'', ''c''],
       manufacturer = None,
       file_reader = (\<lambda>f l k. Inr []),
       file_writer = (\<lambda>f s k. Some AttributeError) \<rparr>"

definition example_full_plugin :: plugin where
  "example_full_plugin =
     example_partial_plugin \<lparr> format_name := ''full'', footprint := Some [''A/B''] \<rparr>"

definition example_later_plugin :: plugin where
  "example_later_plugin =
     example_partial_plugin \<lparr> format_name := ''later'', footprint := Some [''a''] \<rparr>"

text \<open>
  A world with the two files \<open>empty.h5\<close> (an HDF5 file with an empty root group) and
  \<open>scans.h5\<close>, no terminal (the prompts answer no) and \<open>/data\<close> as working directory.
\<close>

definition example_world :: world where
  "example_world =
     \<lparr> isfile = (\<lambda>f. f = ''empty.h5'' \<or> f = ''scans.h5''),
       glob = (\<lambda>f. []),
       is_hdf5 = (\<lambda>f. f = ''empty.h5'' \<or> f = ''scans.h5''),
       h5py_File = (\<lambda>f. []),
       abspath = (\<lambda>f. ''/data/'' @ f),
       ensure_directory = (\<lambda>f. None),
       get_input_bool = (\<lambda>f. False),
       overwrite_method = (\<lambda>f. False) \<rparr>"

text \<open>The eager and the lazy EBSD class, and a constructor that stores what it gets.\<close>

definition example_EBSD :: signal_class where
  "example_EBSD =
     \<lparr> class_name = ''EBSD'', cls_lazy = False, cls_dtype = ''real'',
       cls_signal_dimension = 2, cls_signal_type = ''EBSD'', cls_alias_signal_types = [] \<rparr>"

definition example_LazyEBSD :: signal_class where
  "example_LazyEBSD = example_EBSD \<lparr> class_name := ''LazyEBSD'', cls_lazy := True \<rparr>"

definition example_new_signal :: "signal_class \<Rightarrow> signal_dict \<Rightarrow> error + signal" where
  "example_new_signal cls sd =
     (case sd_data sd of
        None \<Rightarrow> Inl TypeError
      | Some a \<Rightarrow>
          Inr \<lparr> sig_class = cls, sig_data = a, sig_metadata = sd_metadata sd,
                sig_axes_manager =
                  \<lparr> am_signal_dimension = 2, am_navigation_dimension = length (shape a) - 2 \<rparr>,
                sig_tmp_parameters =
                  \<lparr> tmp_folder = None, tmp_filename = None, tmp_extension = None \<rparr> \<rparr>)"

definition example_data :: ndarray where
  "example_data = \<lparr> dtype_name = ''uint8'', itemsize = 1, shape = [3, 3, 60, 60] \<rparr>"

definition example_signal :: signal where
  "example_signal =
     \<lparr> sig_class = example_EBSD, sig_data = example_data,
       sig_metadata = Some [(''Signal'', [(''signal_type'', ''EBSD'')])],
       sig_axes_manager = \<lparr> am_signal_dimension = 2, am_navigation_dimension = 2 \<rparr>,
       sig_tmp_parameters =
         \<lparr> tmp_folder = None, tmp_filename = None, tmp_extension = None \<rparr> \<rparr>"

text \<open>A writing plugin with the format name of kikuchipy's own h5ebsd format.\<close>

definition example_kikuchipy_h5ebsd :: plugin where
  "example_kikuchipy_h5ebsd =
     \<lparr> format_name = ''kikuchipy_h5ebsd'',
       file_extensions = [''h5'', ''hdf5'', ''h5ebsd''],
       default_extension = 0,
       writes = WritesShapes [(2, 2), (2, 1), (2, 0)],
       footprint = Some [''manufacturer'', ''version''],
       manufacturer = Some ''kikuchipy'',
       file_reader = (\<lambda>f l k. Inr []),
       file_writer = (\<lambda>f s k. None) \<rparr>"

definition example_dict :: "(string \<times> string) list \<Rightarrow> signal_dict" where
  "example_dict node = \<lparr> sd_data = Some example_data, sd_metadata = Some [(''Signal'', node)] \<rparr>"

text \<open>
  A normalisation routine for the examples: \<open>-1\<close> and \<open>"auto"\<close> give the whole axis,
  a positive block size gives blocks of that size and a shorter last one.  A lazy array
  of shape (3, 3, 60, 60) whose first axis is in two blocks.  Factors and loadings of
  500 components in \<open>float32\<close>.
\<close>

definition blocks :: "nat \<Rightarrow> nat \<Rightarrow> nat list" where
  "blocks n c = replicate (n div c) c @ (if n mod c = 0 then [] else [n mod c])"

definition example_normalize :: "real normalizer" where
  "example_normalize d shp l t =
     (case shp of
        None \<Rightarrow> Inl TypeError
      | Some sh \<Rightarrow>
          Inr (map (\<lambda>i. case map_of d i of
                      Some (Blocksize c) \<Rightarrow> if c > 0 then blocks (sh ! i) (nat c) else [sh ! i]
                    | _ \<Rightarrow> [sh ! i])
                 [0..<length sh]))"

definition example_dask_array :: dask_array where
  "example_dask_array = \<lparr> da_chunks = [[2, 1], [3], [60], [60]] \<rparr>"

definition example_factors :: ndarray where
  "example_factors = \<lparr> dtype_name = ''float32'', itemsize = 4, shape = [3600, 500] \<rparr>"

definition example_loadings :: ndarray where
  "example_loadings = \<lparr> dtype_name = ''float32'', itemsize = 4, shape = [9, 500] \<rparr>"

text \<open>
  A lazy array of shape (2, 3, 5, 5) in one chunk.  A file whose only member is a
  dataset \<open>EMData\<close>, and a plugin whose footprint is that member.
\<close>

definition example_small_dask_array :: dask_array where
  "example_small_dask_array = \<lparr> da_chunks = [[2], [3], [5], [5]] \<rparr>"

definition example_leaf_file :: "(string \<times> h5node) list" where
  "example_leaf_file = [(''EMData'', Dataset H5Other)]"

definition example_top_plugin :: plugin where
  "example_top_plugin =
     example_partial_plugin \<lparr> format_name := ''top'', footprint := Some [''emdata''] \<rparr>"

section \<open>Verification: footprint matcher\<close>

lemma distinct_hdf5group2dict_loop:
  "distinct (map fst d) \<Longrightarrow> distinct (map fst (hdf5group2dict_loop items d))"
  by (induction items d rule: hdf5group2dict_loop.induct) (simp_all add: distinct_update Let_def)

lemma distinct_hdf5group2dict: "distinct (map fst (hdf5group2dict f))"
  by (simp add: hdf5group2dict_def distinct_hdf5group2dict_loop)

lemma manufacturer_pass_no_key:
  "''manufacturer'' \<notin> fst ` set items \<Longrightarrow> manufacturer_pass f items pwm m = Inr m"
  by (induction items) auto

lemma manufacturer_pass_lookup:
  assumes "distinct (map fst items)"
    and "map_of items ''manufacturer'' = Some val"
    and "read_manufacturer f val = Inr man"
    and "match_manufacturer man pwm = Inr (Some p)"
  shows "manufacturer_pass f items pwm m = Inr (Some p)"
  using assms
proof (induction items arbitrary: m)
  case Nil
  then show ?case by simp
next
  case (Cons kv items)
  obtain key v where kv: "kv = (key, v)" by (cases kv)
  show ?case
  proof (cases "key = ''manufacturer''")
    case True
    with Cons.prems kv have v: "v = val" and nk: "''manufacturer'' \<notin> fst ` set items"
      by auto
    show ?thesis
      using Cons.prems True kv v manufacturer_pass_no_key [OF nk]
      by simp
  next
    case False
    with Cons kv show ?thesis by simp
  qed
qed

lemma match_manufacturer_find:
  "match_manufacturer (H5Str s) ps = Inr (find (\<lambda>p. manufacturer p = Some (str_lower s)) ps)"
  by (induction ps) auto

lemma find_pwm:
  "find (\<lambda>p. manufacturer p = Some t) (plugins_with_manufacturer plugins) =
   find (\<lambda>p. footprint p \<noteq> None \<and> manufacturer p = Some t) plugins"
  by (induction plugins) (auto simp: plugins_with_manufacturer_def plugins_with_footprints_def)

text \<open>
  Claim C5.  When the structure map of the container has an entry under the key
  \<open>manufacturer\<close>, the value read for it (unwrapped, decoded) is the string \<open>man\<close>, and
  some plugin with a footprint declares the manufacturer tag \<open>man.lower()\<close>, then
  the manufacturer pass selects the first such plugin in registration order and
  \<open>_plugin_from_footprints\<close> returns it.  The result is fixed by the manufacturer pass
  alone: nothing is assumed about the footprints, so it holds also when another plugin
  matches structurally.
\<close>

theorem manufacturer_match_preferred:
  assumes "map_of (hdf5group2dict f) ''manufacturer'' = Some val"
    and "read_manufacturer f val = Inr (H5Str man)"
    and "p \<in> set plugins" and "footprint p \<noteq> None"
    and "manufacturer p = Some (str_lower man)"
  shows "\<exists>q. find (\<lambda>q. footprint q \<noteq> None \<and> manufacturer q = Some (str_lower man)) plugins
             = Some q \<and>
           manufacturer_pass f (hdf5group2dict f) (plugins_with_manufacturer plugins) None
             = Inr (Some q) \<and>
           plugin_from_footprints f plugins = Inr (Some q)"
proof -
  let ?P = "\<lambda>q. footprint q \<noteq> None \<and> manufacturer q = Some (str_lower man)"
  from assms(3-5) have "find ?P plugins \<noteq> None"
    by (auto simp: find_None_iff)
  then obtain q where q: "find ?P plugins = Some q" by auto
  have mm: "match_manufacturer (H5Str man) (plugins_with_manufacturer plugins) = Inr (Some q)"
    using q by (simp add: match_manufacturer_find find_pwm)
  have mp: "manufacturer_pass f (hdf5group2dict f) (plugins_with_manufacturer plugins) None
      = Inr (Some q)"
    by (rule manufacturer_pass_lookup [OF distinct_hdf5group2dict assms(1) assms(2) mm])
  show ?thesis using q mp by (simp add: plugin_from_footprints_def)
qed

text \<open>
  Witness for C5: the example file carries the manufacturer \<open>EDAX\<close> and the whole
  footprint of the ECP plugin, which is registered first.  The vendor plugin is
  selected, although the structural pass on its own selects the ECP plugin.
\<close>

theorem manufacturer_match_preferred_witness:
  "plugin_from_footprints example_file [example_ecp_plugin, example_vendor_plugin]
     = Inr (Some example_vendor_plugin) \<and>
   structural_pass (hdf5group2dict example_file)
     (plugins_with_footprints [example_ecp_plugin, example_vendor_plugin])
     = Inr (Some example_ecp_plugin)"
proof -
  have d: "hdf5group2dict example_file =
      [(''emdata'', SDict [(''ecpmaster'', SDict [(''betheparameters'', SOne)])]),
       (''manufacturer'', SKey '' Manufacturer'')]"
    by (simp add: hdf5group2dict_def example_file_def str_lower_def lower_char_def
        str_lstrip_def isspace_def)
  have rm: "read_manufacturer example_file (SKey '' Manufacturer'') = Inr (H5Str ''EDAX'')"
    by (simp add: read_manufacturer_def example_file_def)
  have lw: "str_lower ''EDAX'' = ''edax''"
    by (simp add: str_lower_def lower_char_def)
  have a: "plugin_from_footprints example_file [example_ecp_plugin, example_vendor_plugin]
     = Inr (Some example_vendor_plugin)"
    using manufacturer_match_preferred [of example_file "SKey '' Manufacturer''" "''EDAX''"
        example_vendor_plugin "[example_ecp_plugin, example_vendor_plugin]"]
    by (simp add: d rm lw example_vendor_plugin_def example_ecp_plugin_def
        emsoft_ecp_master_pattern_def)
  have b: "structural_pass (hdf5group2dict example_file)
     (plugins_with_footprints [example_ecp_plugin, example_vendor_plugin])
     = Inr (Some example_ecp_plugin)"
    by (simp add: d plugins_with_footprints_def example_vendor_plugin_def example_ecp_plugin_def
        emsoft_ecp_master_pattern_def str_split_def str_lower_def lower_char_def)
  show ?thesis using a b by simp
qed

lemma exists_chain_lookup_path:
  "(exists_chain obj chain = Inr (Some v)) = (lookup_path obj chain = Some v)"
  by (induction obj chain rule: exists_chain.induct) (auto split: option.splits)

lemma exists_chain_present:
  "exists_chain (SDict d) (str_split (str_lower fp) CHR ''/'') = Inr r \<Longrightarrow>
   present d fp = (r \<noteq> None)"
  using exists_chain_lookup_path [of "SDict d" "str_split (str_lower fp) CHR ''/''"]
  by (cases r) (auto simp: present_def)

lemma n_matches_le: "n_matches d fps = Inr n \<Longrightarrow> n \<le> length fps"
  by (induction fps arbitrary: n) (auto split: sum.splits if_splits)

lemma n_matches_full:
  "n_matches d fps = Inr n \<Longrightarrow> (n = length fps) = list_all (present d) fps"
proof (induction fps arbitrary: n)
  case Nil
  then show ?case by simp
next
  case (Cons fp fps)
  from Cons.prems obtain r m where
    r: "exists_chain (SDict d) (str_split (str_lower fp) CHR ''/'') = Inr r" and
    m: "n_matches d fps = Inr m" and
    n: "n = (if r \<noteq> None then m + 1 else m)"
    by (auto split: sum.splits)
  have pr: "present d fp = (r \<noteq> None)"
    by (rule exists_chain_present [OF r])
  have le: "m \<le> length fps" by (rule n_matches_le [OF m])
  have ih: "(m = length fps) = list_all (present d) fps" by (rule Cons.IH [OF m])
  show ?case
    using pr le ih n by (cases "r = None") auto
qed

text \<open>
  Whenever the structural pass returns (it raises no error), its result is the first
  plugin, in registration order, that has a footprint all of whose paths (lower-cased,
  split on \<open>/\<close>) resolve in the structure map, and \<open>None\<close> when there is no such plugin.
  So a plugin of which only some paths resolve is never selected.
\<close>

lemma structural_pass_first_full_match:
  "structural_pass d (plugins_with_footprints plugins) = Inr r \<Longrightarrow>
   r = find (fully_matches d) plugins"
proof (induction plugins)
  case Nil
  then show ?case by (simp add: plugins_with_footprints_def)
next
  case (Cons p ps)
  show ?case
  proof (cases "footprint p")
    case None
    with Cons show ?thesis
      by (simp add: plugins_with_footprints_def fully_matches_def)
  next
    case (Some fps)
    with Cons.prems obtain n where n: "n_matches d fps = Inr n"
      by (auto simp: plugins_with_footprints_def split: sum.splits)
    show ?thesis
      using Cons Some n n_matches_full [OF n]
      by (auto simp: plugins_with_footprints_def fully_matches_def split: if_splits)
  qed
qed

text \<open>
  In a container that has only \<open>a/b\<close>, the plugin declaring \<open>["a/b", "c"]\<close> does not
  match, and of the two plugins that match fully the one registered first is selected.
\<close>

lemma structural_pass_partial_footprint_example:
  "structural_pass [(''a'', SDict [(''b'', SOne)])]
     (plugins_with_footprints [example_partial_plugin, example_full_plugin, example_later_plugin])
     = Inr (Some example_full_plugin) \<and>
   Some example_full_plugin = find (fully_matches [(''a'', SDict [(''b'', SOne)])])
     [example_partial_plugin, example_full_plugin, example_later_plugin] \<and>
   \<not> fully_matches [(''a'', SDict [(''b'', SOne)])] example_partial_plugin \<and>
   fully_matches [(''a'', SDict [(''b'', SOne)])] example_later_plugin"
proof -
  have s: "structural_pass [(''a'', SDict [(''b'', SOne)])]
     (plugins_with_footprints [example_partial_plugin, example_full_plugin, example_later_plugin])
     = Inr (Some example_full_plugin)"
    by (simp add: plugins_with_footprints_def example_partial_plugin_def example_full_plugin_def
        example_later_plugin_def str_split_def str_lower_def lower_char_def)
  have n: "\<not> fully_matches [(''a'', SDict [(''b'', SOne)])] example_partial_plugin"
    by (simp add: fully_matches_def present_def example_partial_plugin_def
        str_split_def str_lower_def lower_char_def)
  have l: "fully_matches [(''a'', SDict [(''b'', SOne)])] example_later_plugin"
    by (simp add: fully_matches_def present_def example_partial_plugin_def
        example_later_plugin_def str_split_def str_lower_def lower_char_def)
  show ?thesis
    using structural_pass_first_full_match [OF s] s n l by simp
qed

text \<open>
  Claim C6, evaluated on the code.  The file has a dataset \<open>EMData\<close> and nothing else.
  The footprint \<open>emdata\<close> of the second plugin is fully present, the footprint
  \<open>emdata/ecpmaster\<close> of the first one is not.  The lookup of the first footprint
  reaches the dataset with a key left, where \<open>key in obj\<close> raises \<open>TypeError\<close>; the pass
  ends there and the fully matching plugin is not selected.
\<close>

theorem structural_pass_raises_before_full_match:
  "plugin_from_footprints example_leaf_file [example_ecp_plugin, example_top_plugin]
     = Inl TypeError \<and>
   find (fully_matches (hdf5group2dict example_leaf_file))
     [example_ecp_plugin, example_top_plugin] = Some example_top_plugin"
proof -
  have d: "hdf5group2dict example_leaf_file = [(''emdata'', SOne)]"
    by (simp add: hdf5group2dict_def example_leaf_file_def str_lower_def lower_char_def
        str_lstrip_def isspace_def)
  have a: "plugin_from_footprints example_leaf_file [example_ecp_plugin, example_top_plugin]
     = Inl TypeError"
    by (simp add: plugin_from_footprints_def d plugins_with_manufacturer_def
        plugins_with_footprints_def example_ecp_plugin_def example_top_plugin_def
        example_partial_plugin_def emsoft_ecp_master_pattern_def str_split_def str_lower_def
        lower_char_def)
  have b: "find (fully_matches [(''emdata'', SOne)]) [example_ecp_plugin, example_top_plugin]
      = Some example_top_plugin"
    by (simp add: fully_matches_def present_def example_ecp_plugin_def example_top_plugin_def
        example_partial_plugin_def emsoft_ecp_master_pattern_def str_split_def str_lower_def
        lower_char_def)
  show ?thesis using a b by (simp add: d)
qed

section \<open>Verification: \<open>load\<close>\<close>

lemma load_footprint_None:
  assumes "isfile w filename \<or> glob w filename \<noteq> []"
    and "readers = filter (\<lambda>p. str_lower (drop 1 (snd (splitext filename)))
           \<in> set (file_extensions p)) plugins"
    and "length readers > 1" and "is_hdf5 w filename"
    and "plugin_from_footprints (h5py_File w filename) readers = Inr None"
  shows "load plugins registry new_signal w filename lazy kwargs = Inl AttributeError"
proof -
  from assms(3) obtain r rs where rs: "readers = r # rs" by (cases readers) auto
  show ?thesis
    using assms rs unfolding load_def Let_def
    by (auto split: list.splits)
qed

text \<open>
  Claim C1, evaluated on the code.  \<open>empty.h5\<close> is an HDF5 file with an empty root
  group; two plugins list the extension \<open>h5\<close>.  Footprint matching finds no plugin in
  either pass and returns \<open>None\<close>, and \<open>load\<close> then leaves with \<open>AttributeError\<close> (the
  attribute \<open>file_reader\<close> of \<open>None\<close>), not with the \<open>IOError\<close> that reports an unreadable
  file.
\<close>

theorem load_unmatched_hdf5_raises_AttributeError:
  "plugin_from_footprints (h5py_File example_world ''empty.h5'')
     [example_ecp_plugin, example_vendor_plugin] = Inr None \<and>
   load [example_ecp_plugin, example_vendor_plugin] [example_EBSD] example_new_signal
     example_world ''empty.h5'' False [] = Inl AttributeError"
proof -
  have ext: "splitext ''empty.h5'' = (''empty'', ''.h5'')"
    by (simp add: splitext_def rfind_def)
  have fp: "plugin_from_footprints [] [example_ecp_plugin, example_vendor_plugin] = Inr None"
    by (simp add: plugin_from_footprints_def hdf5group2dict_def plugins_with_manufacturer_def
        plugins_with_footprints_def example_ecp_plugin_def example_vendor_plugin_def
        emsoft_ecp_master_pattern_def str_split_def str_lower_def lower_char_def)
  have w: "h5py_File example_world ''empty.h5'' = []" "isfile example_world ''empty.h5''"
    "is_hdf5 example_world ''empty.h5''"
    by (simp_all add: example_world_def)
  have rd: "filter (\<lambda>p. str_lower (drop 1 (snd (splitext ''empty.h5''))) \<in> set (file_extensions p))
      [example_ecp_plugin, example_vendor_plugin] = [example_ecp_plugin, example_vendor_plugin]"
    by (simp add: ext str_lower_def lower_char_def example_ecp_plugin_def example_vendor_plugin_def
        emsoft_ecp_master_pattern_def)
  have "load [example_ecp_plugin, example_vendor_plugin] [example_EBSD] example_new_signal
     example_world ''empty.h5'' False [] = Inl AttributeError"
    by (rule load_footprint_None [OF _ rd [symmetric]]) (simp_all add: w fp)
  then show ?thesis using fp w by simp
qed

section \<open>Verification: signal resolver\<close>

lemma dtype_dim_type_matches_set:
  "c \<in> set (dtype_dim_type_matches registry dtype signal_dimension signal_type lazy) =
     (c \<in> set registry \<and> cls_lazy c = lazy \<and> cls_dtype c = dtype \<and>
      cls_signal_dimension c = signal_dimension \<and>
      (signal_type = cls_signal_type c \<or> signal_type \<in> set (cls_alias_signal_types c)))"
  by (auto simp: dtype_dim_type_matches_def)

text \<open>
  Claim C7, as amended.  The resolver returns a class only for an understood data type,
  a non-negative dimension and exactly one registered class that matches the lazy flag,
  the data type category \<open>real\<close>, the signal dimension and the type string (by name or
  by alias).  For an understood data type and a non-negative dimension, any other
  number of matches raises the error that names the category \<open>'real'\<close>, the dimension
  and the type string.  A data type that is not understood and a negative dimension
  raise errors of their own, which name the data type only and the dimension only.
\<close>

theorem assign_signal_subclass_exactly_one:
  "(assign_signal_subclass registry dtype signal_dimension signal_type lazy = Inr c \<longrightarrow>
      dtype_understood dtype \<and> 0 \<le> signal_dimension \<and>
      dtype_dim_type_matches registry ''real'' signal_dimension signal_type lazy = [c]) \<and>
   (dtype_understood dtype \<and> 0 \<le> signal_dimension \<longrightarrow>
      (dtype_dim_type_matches registry ''real'' signal_dimension signal_type lazy = [c] \<longrightarrow>
         assign_signal_subclass registry dtype signal_dimension signal_type lazy = Inr c) \<and>
      (length (dtype_dim_type_matches registry ''real'' signal_dimension signal_type lazy) \<noteq> 1 \<longrightarrow>
         assign_signal_subclass registry dtype signal_dimension signal_type lazy
           = Inl (ValueError_NoSignalsMatch ''real'' signal_dimension signal_type))) \<and>
   (\<not> dtype_understood dtype \<longrightarrow>
      assign_signal_subclass registry dtype signal_dimension signal_type lazy
        = Inl (ValueError_DataType dtype)) \<and>
   (dtype_understood dtype \<and> signal_dimension < 0 \<longrightarrow>
      assign_signal_subclass registry dtype signal_dimension signal_type lazy
        = Inl (ValueError_SignalDimension signal_dimension)) \<and>
   (c \<in> set (dtype_dim_type_matches registry ''real'' signal_dimension signal_type lazy) =
     (c \<in> set registry \<and> cls_lazy c = lazy \<and> cls_dtype c = ''real'' \<and>
      cls_signal_dimension c = signal_dimension \<and>
      (signal_type = cls_signal_type c \<or> signal_type \<in> set (cls_alias_signal_types c))))"
proof -
  let ?ms = "dtype_dim_type_matches registry ''real'' signal_dimension signal_type lazy"
  have a: "assign_signal_subclass registry dtype signal_dimension signal_type lazy = Inr c \<longrightarrow>
      dtype_understood dtype \<and> 0 \<le> signal_dimension \<and> ?ms = [c]"
    by (auto simp: assign_signal_subclass_def split: if_splits list.splits)
  have b: "dtype_understood dtype \<and> 0 \<le> signal_dimension \<longrightarrow> ?ms = [c] \<longrightarrow>
         assign_signal_subclass registry dtype signal_dimension signal_type lazy = Inr c"
    by (simp add: assign_signal_subclass_def)
  have c: "dtype_understood dtype \<and> 0 \<le> signal_dimension \<longrightarrow> length ?ms \<noteq> 1 \<longrightarrow>
         assign_signal_subclass registry dtype signal_dimension signal_type lazy
           = Inl (ValueError_NoSignalsMatch ''real'' signal_dimension signal_type)"
    by (auto simp: assign_signal_subclass_def split: list.splits)
  have d: "\<not> dtype_understood dtype \<longrightarrow>
      assign_signal_subclass registry dtype signal_dimension signal_type lazy
        = Inl (ValueError_DataType dtype)"
    by (simp add: assign_signal_subclass_def)
  have e: "dtype_understood dtype \<and> signal_dimension < 0 \<longrightarrow>
      assign_signal_subclass registry dtype signal_dimension signal_type lazy
        = Inl (ValueError_SignalDimension signal_dimension)"
    by (simp add: assign_signal_subclass_def)
  show ?thesis
    using a b c d e dtype_dim_type_matches_set [of c registry "''real''" signal_dimension signal_type lazy]
    by blast
qed

lemma example_uint8: "dtype_understood ''uint8''"
  by (simp add: dtype_understood_def)

lemma example_complex: "\<not> dtype_understood ''complex128''"
  by (simp add: dtype_understood_def)

text \<open>
  Witness for C7: one match, no match (the empty type string), two matches, and a data
  type that is not understood.
\<close>

theorem assign_signal_subclass_exactly_one_witness:
  "assign_signal_subclass [example_EBSD, example_LazyEBSD] ''uint8'' 2 ''EBSD'' False
     = Inr example_EBSD \<and>
   assign_signal_subclass [example_EBSD, example_LazyEBSD] ''uint8'' 2 [] False
     = Inl (ValueError_NoSignalsMatch ''real'' 2 []) \<and>
   assign_signal_subclass [example_EBSD, example_EBSD] ''uint8'' 2 ''EBSD'' False
     = Inl (ValueError_NoSignalsMatch ''real'' 2 ''EBSD'') \<and>
   assign_signal_subclass [example_EBSD, example_LazyEBSD] ''complex128'' 2 ''EBSD'' True
     = Inl (ValueError_DataType ''complex128'')"
proof -
  have m1: "dtype_dim_type_matches [example_EBSD, example_LazyEBSD] ''real'' 2 ''EBSD'' False
      = [example_EBSD]"
    by (simp add: dtype_dim_type_matches_def example_EBSD_def example_LazyEBSD_def)
  have m0: "dtype_dim_type_matches [example_EBSD, example_LazyEBSD] ''real'' 2 [] False = []"
    by (simp add: dtype_dim_type_matches_def example_EBSD_def example_LazyEBSD_def)
  have m2: "dtype_dim_type_matches [example_EBSD, example_EBSD] ''real'' 2 ''EBSD'' False
      = [example_EBSD, example_EBSD]"
    by (simp add: dtype_dim_type_matches_def example_EBSD_def)
  show ?thesis
    using assign_signal_subclass_exactly_one
        [of "[example_EBSD, example_LazyEBSD]" "''uint8''" 2 "''EBSD''" False example_EBSD]
      assign_signal_subclass_exactly_one
        [of "[example_EBSD, example_LazyEBSD]" "''uint8''" 2 "[]" False example_EBSD]
      assign_signal_subclass_exactly_one
        [of "[example_EBSD, example_EBSD]" "''uint8''" 2 "''EBSD''" False example_EBSD]
      assign_signal_subclass_exactly_one
        [of "[example_EBSD, example_LazyEBSD]" "''complex128''" 2 "''EBSD''" True example_EBSD]
    by (simp add: m0 m1 m2 example_uint8 example_complex)
qed

text \<open>
  Counterexample to C7 as stated: for \<open>uint8\<close>, dimension \<open>-1\<close> and type \<open>EBSD\<close> no
  registered class matches, and the error raised names the dimension only; it is not
  the error that names data type, dimension and type string.
\<close>

theorem assign_signal_subclass_negative_dimension_counterexample:
  "dtype_dim_type_matches [example_EBSD, example_LazyEBSD] ''real'' (- 1) ''EBSD'' False = [] \<and>
   assign_signal_subclass [example_EBSD, example_LazyEBSD] ''uint8'' (- 1) ''EBSD'' False
     = Inl (ValueError_SignalDimension (- 1)) \<and>
   ValueError_SignalDimension (- 1) \<noteq> ValueError_NoSignalsMatch ''real'' (- 1) ''EBSD'' \<and>
   ValueError_SignalDimension (- 1) \<noteq> ValueError_NoSignalsMatch ''uint8'' (- 1) ''EBSD''"
  by (simp add: dtype_dim_type_matches_def assign_signal_subclass_def example_uint8
      example_EBSD_def example_LazyEBSD_def)

section \<open>Verification: \<open>_dict2signal\<close>\<close>

lemma md_signal_type_delete:
  "map_of md ''Signal'' = Some node \<Longrightarrow>
   md_signal_type (AList.update ''Signal'' (AList.delete ''record_by'' node) md)
     = md_signal_type md"
  by (simp add: md_signal_type_def update_conv' delete_conv')

text \<open>
  Claim C2, as amended.  For a signal dictionary with metadata: a \<open>Signal.record_by\<close>
  other than \<open>"image"\<close> raises the \<open>ValueError\<close>; with \<open>Signal.record_by\<close> equal to
  \<open>"image"\<close> the check deletes the field, and the class constructor (when the class is
  resolved) receives the metadata without it; and when the \<open>Signal\<close> node or its
  \<open>record_by\<close> field is absent the check raises nothing and leaves the metadata as it
  is.  In the last two cases the conversion goes on to the resolution of the signal
  class, whose errors (no data, no matching class) it passes on.
\<close>

theorem dict2signal_record_by:
  assumes "sd_metadata sd = Some md"
  shows
    "(\<forall>node v. map_of md ''Signal'' = Some node \<and> map_of node ''record_by'' = Some v \<and>
        v \<noteq> ''image'' \<longrightarrow>
        dict2signal registry new_signal sd lazy = Inl (ValueError_RecordBy v)) \<and>
     (\<forall>node. map_of md ''Signal'' = Some node \<and> map_of node ''record_by'' = Some ''image'' \<longrightarrow>
        check_record_by md
          = Inr (AList.update ''Signal'' (AList.delete ''record_by'' node) md) \<and>
        map_of (AList.update ''Signal'' (AList.delete ''record_by'' node) md) ''Signal''
          = Some (AList.delete ''record_by'' node) \<and>
        map_of (AList.delete ''record_by'' node) ''record_by'' = None \<and>
        dict2signal registry new_signal sd lazy =
          (case sd_data sd of
             None \<Rightarrow> Inl (KeyError ''data'')
           | Some a \<Rightarrow>
               (case assign_signal_subclass registry (dtype_name a) 2 (md_signal_type md) lazy of
                  Inl e \<Rightarrow> Inl e
                | Inr cls \<Rightarrow>
                    new_signal cls (sd \<lparr> sd_metadata :=
                      Some (AList.update ''Signal'' (AList.delete ''record_by'' node) md) \<rparr>)))) \<and>
     (map_of md ''Signal'' = None \<or>
        (\<exists>node. map_of md ''Signal'' = Some node \<and> map_of node ''record_by'' = None) \<longrightarrow>
        check_record_by md = Inr md \<and>
        dict2signal registry new_signal sd lazy =
          (case sd_data sd of
             None \<Rightarrow> Inl (KeyError ''data'')
           | Some a \<Rightarrow>
               (case assign_signal_subclass registry (dtype_name a) 2 (md_signal_type md) lazy of
                  Inl e \<Rightarrow> Inl e
                | Inr cls \<Rightarrow> new_signal cls sd)))"
proof -
  have mismatch: "dict2signal registry new_signal sd lazy = Inl (ValueError_RecordBy v)"
    if "map_of md ''Signal'' = Some node" "map_of node ''record_by'' = Some v" "v \<noteq> ''image''"
    for node v
    using that assms by (simp add: dict2signal_def check_record_by_def)
  have image_chk: "check_record_by md
          = Inr (AList.update ''Signal'' (AList.delete ''record_by'' node) md)"
    if "map_of md ''Signal'' = Some node" "map_of node ''record_by'' = Some ''image''" for node
    using that by (simp add: check_record_by_def)
  have image: "dict2signal registry new_signal sd lazy =
          (case sd_data sd of
             None \<Rightarrow> Inl (KeyError ''data'')
           | Some a \<Rightarrow>
               (case assign_signal_subclass registry (dtype_name a) 2 (md_signal_type md) lazy of
                  Inl e \<Rightarrow> Inl e
                | Inr cls \<Rightarrow>
                    new_signal cls (sd \<lparr> sd_metadata :=
                      Some (AList.update ''Signal'' (AList.delete ''record_by'' node) md) \<rparr>)))"
    if "map_of md ''Signal'' = Some node" "map_of node ''record_by'' = Some ''image''" for node
    using assms image_chk [OF that] md_signal_type_delete [OF that(1)]
    by (simp add: dict2signal_def split: option.splits sum.splits)
  have gone: "map_of (AList.update ''Signal'' (AList.delete ''record_by'' node) md) ''Signal''
          = Some (AList.delete ''record_by'' node) \<and>
        map_of (AList.delete ''record_by'' node) ''record_by'' = None" for node
    by (simp add: update_conv' delete_conv')
  have absent_chk: "check_record_by md = Inr md"
    if "map_of md ''Signal'' = None \<or>
          (\<exists>node. map_of md ''Signal'' = Some node \<and> map_of node ''record_by'' = None)"
    using that by (auto simp: check_record_by_def)
  have eq: "sd \<lparr> sd_metadata := Some md \<rparr> = sd"
    using assms by simp
  have absent: "dict2signal registry new_signal sd lazy =
          (case sd_data sd of
             None \<Rightarrow> Inl (KeyError ''data'')
           | Some a \<Rightarrow>
               (case assign_signal_subclass registry (dtype_name a) 2 (md_signal_type md) lazy of
                  Inl e \<Rightarrow> Inl e
                | Inr cls \<Rightarrow> new_signal cls sd))"
    if "map_of md ''Signal'' = None \<or>
          (\<exists>node. map_of md ''Signal'' = Some node \<and> map_of node ''record_by'' = None)"
    using assms absent_chk [OF that]
    by (simp add: dict2signal_def eq split: option.splits sum.splits)
  show ?thesis
    using mismatch image_chk image gone absent_chk absent by blast
qed

lemma example_assign:
  "assign_signal_subclass [example_EBSD, example_LazyEBSD] ''uint8'' 2 ''EBSD'' False
     = Inr example_EBSD"
  by (simp add: assign_signal_subclass_def dtype_understood_def dtype_dim_type_matches_def
      example_EBSD_def example_LazyEBSD_def)

lemma example_assign_no_type:
  "assign_signal_subclass [example_EBSD, example_LazyEBSD] ''uint8'' 2 [] False
     = Inl (ValueError_NoSignalsMatch ''real'' 2 [])"
  by (simp add: assign_signal_subclass_def dtype_understood_def dtype_dim_type_matches_def
      example_EBSD_def example_LazyEBSD_def)

text \<open>
  Witness for C2: \<open>record_by\<close> is \<open>"not-image"\<close> (the repository's test), \<open>"image"\<close>,
  absent from the \<open>Signal\<close> node, and absent with the \<open>Signal\<close> node (where the resolver
  raises, no signal type being given).
\<close>

theorem dict2signal_record_by_witness:
  "dict2signal [example_EBSD, example_LazyEBSD] example_new_signal
     (example_dict [(''record_by'', ''not-image''), (''signal_type'', ''EBSD'')]) False
     = Inl (ValueError_RecordBy ''not-image'') \<and>
   dict2signal [example_EBSD, example_LazyEBSD] example_new_signal
     (example_dict [(''record_by'', ''image''), (''signal_type'', ''EBSD'')]) False
     = example_new_signal example_EBSD (example_dict [(''signal_type'', ''EBSD'')]) \<and>
   dict2signal [example_EBSD, example_LazyEBSD] example_new_signal
     (example_dict [(''signal_type'', ''EBSD'')]) False
     = example_new_signal example_EBSD (example_dict [(''signal_type'', ''EBSD'')]) \<and>
   dict2signal [example_EBSD, example_LazyEBSD] example_new_signal
     \<lparr> sd_data = Some example_data, sd_metadata = Some [] \<rparr> False
     = Inl (ValueError_NoSignalsMatch ''real'' 2 [])"
proof -
  let ?reg = "[example_EBSD, example_LazyEBSD]"
  have dt: "dtype_name example_data = ''uint8''" by (simp add: example_data_def)
  have a: "dict2signal ?reg example_new_signal
     (example_dict [(''record_by'', ''not-image''), (''signal_type'', ''EBSD'')]) False
     = Inl (ValueError_RecordBy ''not-image'')"
    using dict2signal_record_by [of "example_dict [(''record_by'', ''not-image''), (''signal_type'', ''EBSD'')]"
        "[(''Signal'', [(''record_by'', ''not-image''), (''signal_type'', ''EBSD'')])]"
        ?reg example_new_signal False]
    by (simp add: example_dict_def)
  have b: "dict2signal ?reg example_new_signal
     (example_dict [(''record_by'', ''image''), (''signal_type'', ''EBSD'')]) False
     = example_new_signal example_EBSD (example_dict [(''signal_type'', ''EBSD'')])"
    using dict2signal_record_by [of "example_dict [(''record_by'', ''image''), (''signal_type'', ''EBSD'')]"
        "[(''Signal'', [(''record_by'', ''image''), (''signal_type'', ''EBSD'')])]"
        ?reg example_new_signal False] example_assign
    by (simp add: example_dict_def md_signal_type_def dt)
  have c: "dict2signal ?reg example_new_signal
     (example_dict [(''signal_type'', ''EBSD'')]) False
     = example_new_signal example_EBSD (example_dict [(''signal_type'', ''EBSD'')])"
    using dict2signal_record_by [of "example_dict [(''signal_type'', ''EBSD'')]"
        "[(''Signal'', [(''signal_type'', ''EBSD'')])]"
        ?reg example_new_signal False] example_assign
    by (simp add: example_dict_def md_signal_type_def dt)
  have d: "dict2signal ?reg example_new_signal
     \<lparr> sd_data = Some example_data, sd_metadata = Some [] \<rparr> False
     = Inl (ValueError_NoSignalsMatch ''real'' 2 [])"
    using dict2signal_record_by [of "\<lparr> sd_data = Some example_data, sd_metadata = Some [] \<rparr>"
        "[]" ?reg example_new_signal False] example_assign_no_type
    by (simp add: md_signal_type_def dt)
  show ?thesis using a b c d by simp
qed

text \<open>
  Counterexample to C2 as stated: the metadata has no \<open>Signal.record_by\<close>, and the
  conversion returns a signal instead of raising \<open>ValueError\<close>.
\<close>

theorem dict2signal_missing_record_by_counterexample:
  "map_of [(''signal_type'', ''EBSD'')] ''record_by'' = None \<and>
   dict2signal [example_EBSD, example_LazyEBSD] example_new_signal
     (example_dict [(''signal_type'', ''EBSD'')]) False
     = Inr \<lparr> sig_class = example_EBSD, sig_data = example_data,
             sig_metadata = Some [(''Signal'', [(''signal_type'', ''EBSD'')])],
             sig_axes_manager = \<lparr> am_signal_dimension = 2, am_navigation_dimension = 2 \<rparr>,
             sig_tmp_parameters =
               \<lparr> tmp_folder = None, tmp_filename = None, tmp_extension = None \<rparr> \<rparr>"
  using example_assign
  by (simp add: dict2signal_def check_record_by_def md_signal_type_def example_dict_def
      example_new_signal_def example_data_def)

section \<open>Verification: \<open>_save\<close>\<close>

lemma save_unfold:
  assumes "find_writer plugins (save_ext filename0) = Some writer"
    and "writes writer = WritesBool True \<or>
         can_write (writes writer)
           (am_signal_dimension (sig_axes_manager s), am_navigation_dimension (sig_axes_manager s))"
    and "ensure_directory w (save_filename filename0) = None"
    and "add_scan_step w writer (save_filename filename0) (isfile w (save_filename filename0))
           overwrite add_scan kwargs = (overwrite1, kwargs1)"
    and "decide_write w (save_filename filename0) (isfile w (save_filename filename0)) overwrite1
           = Inr write"
  shows "save plugins w filename0 s overwrite add_scan kwargs =
     (if write then
        (case file_writer writer (save_filename filename0) s kwargs1 of
           Some e \<Rightarrow> \<lparr> sr_raised = Some e, sr_signal = s,
                       sr_writer_calls = [\<lparr> wc_format_name = format_name writer,
                         wc_filename = save_filename filename0, wc_kwargs = kwargs1 \<rparr>] \<rparr>
         | None \<Rightarrow>
             \<lparr> sr_raised = None,
               sr_signal = s \<lparr> sig_tmp_parameters :=
                 \<lparr> tmp_folder = Some (fst (os_path_split (abspath w (save_filename filename0)))),
                   tmp_filename = Some (fst (splitext
                     (snd (os_path_split (abspath w (save_filename filename0)))))),
                   tmp_extension = Some (save_ext filename0) \<rparr> \<rparr>,
               sr_writer_calls = [\<lparr> wc_format_name = format_name writer,
                 wc_filename = save_filename filename0, wc_kwargs = kwargs1 \<rparr>] \<rparr>)
      else \<lparr> sr_raised = None, sr_signal = s, sr_writer_calls = [] \<rparr>)"
  using assms unfolding save_def Let_def
  by (auto split: option.splits prod.splits)

lemma save_frame:
  "sr_writer_calls (save plugins w filename0 s overwrite add_scan kwargs) = [] \<Longrightarrow>
   sr_signal (save plugins w filename0 s overwrite add_scan kwargs) = s"
  unfolding save_def Let_def raised_def
  by (auto split: option.splits prod.splits sum.splits if_splits)

text \<open>
  Claim C3, as amended.  Saving to an existing file with the writer of the
  \<open>kikuchipy_h5ebsd\<close> format: with \<open>overwrite=False\<close> and \<open>add_scan=False\<close> nothing is
  written (the writer is not called and the signal is unchanged); with \<open>add_scan=True\<close>
  and \<open>overwrite\<close> not \<open>True\<close> the writer is called once, with \<open>add_scan=True\<close> among its
  keyword arguments.
\<close>

theorem save_add_scan_decides:
  assumes "find_writer plugins (save_ext filename0) = Some writer"
    and "format_name writer = ''kikuchipy_h5ebsd''"
    and "writes writer = WritesBool True \<or>
         can_write (writes writer)
           (am_signal_dimension (sig_axes_manager s), am_navigation_dimension (sig_axes_manager s))"
    and "ensure_directory w (save_filename filename0) = None"
    and "isfile w (save_filename filename0)"
  shows
    "save plugins w filename0 s (OverwriteBool False) (Some False) kwargs
       = \<lparr> sr_raised = None, sr_signal = s, sr_writer_calls = [] \<rparr> \<and>
     (overwrite \<noteq> OverwriteBool True \<longrightarrow>
        sr_writer_calls (save plugins w filename0 s overwrite (Some True) kwargs)
          = [\<lparr> wc_format_name = ''kikuchipy_h5ebsd'', wc_filename = save_filename filename0,
               wc_kwargs = AList.update ''add_scan'' (PyBool True) kwargs \<rparr>])"
proof -
  let ?fn = "save_filename filename0"
  have a1: "add_scan_step w writer ?fn (isfile w ?fn) (OverwriteBool False) (Some False) kwargs
      = (OverwriteBool False, AList.update ''add_scan'' (PyBool False) kwargs)"
    using assms(2,5) by (simp add: add_scan_step_def)
  have d1: "decide_write w ?fn (isfile w ?fn) (OverwriteBool False) = Inr False"
    using assms(5) by (simp add: decide_write_def)
  have r1: "save plugins w filename0 s (OverwriteBool False) (Some False) kwargs
       = \<lparr> sr_raised = None, sr_signal = s, sr_writer_calls = [] \<rparr>"
    using save_unfold [OF assms(1) assms(3) assms(4) a1 d1] by simp
  have r2: "sr_writer_calls (save plugins w filename0 s overwrite (Some True) kwargs)
          = [\<lparr> wc_format_name = ''kikuchipy_h5ebsd'', wc_filename = ?fn,
               wc_kwargs = AList.update ''add_scan'' (PyBool True) kwargs \<rparr>]"
    if ov: "overwrite \<noteq> OverwriteBool True"
  proof -
    have a2: "add_scan_step w writer ?fn (isfile w ?fn) overwrite (Some True) kwargs
        = (OverwriteBool True, AList.update ''add_scan'' (PyBool True) kwargs)"
      using assms(2,5) ov by (simp add: add_scan_step_def)
    have d2: "decide_write w ?fn (isfile w ?fn) (OverwriteBool True) = Inr True"
      by (simp add: decide_write_def)
    show ?thesis
      using save_unfold [OF assms(1) assms(3) assms(4) a2 d2] assms(2)
      by (simp split: option.splits)
  qed
  show ?thesis using r1 r2 by blast
qed

lemma example_save_facts:
  "save_ext ''scans.h5'' = ''h5''" "save_filename ''scans.h5'' = ''scans.h5''"
  "find_writer [example_kikuchipy_h5ebsd] ''h5'' = Some example_kikuchipy_h5ebsd"
  "format_name example_kikuchipy_h5ebsd = ''kikuchipy_h5ebsd''"
  "can_write (writes example_kikuchipy_h5ebsd)
     (am_signal_dimension (sig_axes_manager example_signal),
      am_navigation_dimension (sig_axes_manager example_signal))"
  "ensure_directory example_world ''scans.h5'' = None"
  "isfile example_world ''scans.h5''"
  by (simp_all add: save_ext_def save_filename_def splitext_def rfind_def find_writer_def
      example_kikuchipy_h5ebsd_def str_lower_def lower_char_def example_signal_def
      example_world_def)

text \<open>Witness for C3: \<open>scans.h5\<close> exists; \<open>add_scan\<close> is \<open>False\<close>, then \<open>True\<close>.\<close>

theorem save_add_scan_decides_witness:
  "save [example_kikuchipy_h5ebsd] example_world ''scans.h5'' example_signal
     (OverwriteBool False) (Some False) []
     = \<lparr> sr_raised = None, sr_signal = example_signal, sr_writer_calls = [] \<rparr> \<and>
   sr_writer_calls (save [example_kikuchipy_h5ebsd] example_world ''scans.h5'' example_signal
     (OverwriteBool False) (Some True) [])
     = [\<lparr> wc_format_name = ''kikuchipy_h5ebsd'', wc_filename = ''scans.h5'',
          wc_kwargs = [(''add_scan'', PyBool True)] \<rparr>]"
  using save_add_scan_decides [where plugins = "[example_kikuchipy_h5ebsd]"
      and ?filename0.0 = "''scans.h5''" and writer = example_kikuchipy_h5ebsd
      and s = example_signal and w = example_world and overwrite = "OverwriteBool False"
      and kwargs = "[]"]
  by (simp add: example_save_facts)

text \<open>
  Counterexample to C3 as stated: the call of the repository's test, with
  \<open>scan_number=2\<close>, \<open>overwrite=False\<close> and \<open>add_scan=False\<close> on the existing \<open>scans.h5\<close>,
  returns without any call of the writer.
\<close>

theorem save_no_append_counterexample:
  "save [example_kikuchipy_h5ebsd] example_world ''scans.h5'' example_signal
     (OverwriteBool False) (Some False) [(''scan_number'', PyInt 2)]
     = \<lparr> sr_raised = None, sr_signal = example_signal, sr_writer_calls = [] \<rparr>"
proof -
  have a: "add_scan_step example_world example_kikuchipy_h5ebsd (save_filename ''scans.h5'')
      (isfile example_world (save_filename ''scans.h5'')) (OverwriteBool False) (Some False)
      [(''scan_number'', PyInt 2)]
      = (OverwriteBool False, [(''scan_number'', PyInt 2), (''add_scan'', PyBool False)])"
    by (simp add: add_scan_step_def example_save_facts)
  have d: "decide_write example_world (save_filename ''scans.h5'')
      (isfile example_world (save_filename ''scans.h5'')) (OverwriteBool False) = Inr False"
    by (simp add: decide_write_def example_save_facts)
  show ?thesis
    using save_unfold [OF _ _ _ a d, of "[example_kikuchipy_h5ebsd]" example_signal]
    by (simp add: example_save_facts)
qed

text \<open>
  Claim C10.  When the write decision is "do not write", \<open>_save\<close> returns normally with
  no call of the writer and with the signal (so its folder, filename and extension) as
  it was; \<open>overwrite=False\<close> on an existing file gives that decision unless the scan is
  to be added to a kikuchipy h5ebsd file; and whenever no writer call was made, the
  signal is unchanged.
\<close>

theorem save_no_write_frame:
  "(find_writer plugins (save_ext filename0) = Some writer \<and>
    (writes writer = WritesBool True \<or>
       can_write (writes writer)
         (am_signal_dimension (sig_axes_manager s), am_navigation_dimension (sig_axes_manager s))) \<and>
    ensure_directory w (save_filename filename0) = None \<and>
    decide_write w (save_filename filename0) (isfile w (save_filename filename0))
      (fst (add_scan_step w writer (save_filename filename0) (isfile w (save_filename filename0))
         overwrite add_scan kwargs)) = Inr False \<longrightarrow>
    save plugins w filename0 s overwrite add_scan kwargs
      = \<lparr> sr_raised = None, sr_signal = s, sr_writer_calls = [] \<rparr>) \<and>
   (overwrite = OverwriteBool False \<and> isfile w (save_filename filename0) \<and>
    (format_name writer \<noteq> ''kikuchipy_h5ebsd'' \<or> add_scan = Some False \<or>
       (add_scan = None \<and> \<not> get_input_bool w (save_filename filename0))) \<longrightarrow>
    decide_write w (save_filename filename0) (isfile w (save_filename filename0))
      (fst (add_scan_step w writer (save_filename filename0) (isfile w (save_filename filename0))
         overwrite add_scan kwargs)) = Inr False) \<and>
   (sr_writer_calls (save plugins w filename0 s overwrite add_scan kwargs) = [] \<longrightarrow>
    sr_signal (save plugins w filename0 s overwrite add_scan kwargs) = s)"
proof -
  let ?fn = "save_filename filename0"
  let ?step = "add_scan_step w writer ?fn (isfile w ?fn) overwrite add_scan kwargs"
  have a: "save plugins w filename0 s overwrite add_scan kwargs
      = \<lparr> sr_raised = None, sr_signal = s, sr_writer_calls = [] \<rparr>"
    if "find_writer plugins (save_ext filename0) = Some writer"
      "writes writer = WritesBool True \<or>
       can_write (writes writer)
         (am_signal_dimension (sig_axes_manager s), am_navigation_dimension (sig_axes_manager s))"
      "ensure_directory w ?fn = None"
      "decide_write w ?fn (isfile w ?fn) (fst ?step) = Inr False"
  proof -
    have st: "?step = (fst ?step, snd ?step)" by simp
    show ?thesis
      using save_unfold [OF that(1) that(2) that(3) st that(4)] by simp
  qed
  have b: "decide_write w ?fn (isfile w ?fn) (fst ?step) = Inr False"
    if "overwrite = OverwriteBool False" "isfile w ?fn"
      "format_name writer \<noteq> ''kikuchipy_h5ebsd'' \<or> add_scan = Some False \<or>
       (add_scan = None \<and> \<not> get_input_bool w ?fn)"
    using that by (auto simp: add_scan_step_def decide_write_def)
  show ?thesis
    using a b save_frame [of plugins w filename0 s overwrite add_scan kwargs] by blast
qed

text \<open>
  Witness for C10: \<open>overwrite=False\<close> on the existing \<open>scans.h5\<close> with the prompt answering
  no writes nothing; \<open>overwrite=True\<close> writes and records \<open>/data\<close>, \<open>scans\<close>, \<open>h5\<close>.
\<close>

theorem save_no_write_frame_witness:
  "save [example_kikuchipy_h5ebsd] example_world ''scans.h5'' example_signal
     (OverwriteBool False) None []
     = \<lparr> sr_raised = None, sr_signal = example_signal, sr_writer_calls = [] \<rparr> \<and>
   sig_tmp_parameters (sr_signal (save [example_kikuchipy_h5ebsd] example_world ''scans.h5''
     example_signal (OverwriteBool True) None []))
     = \<lparr> tmp_folder = Some ''/data'', tmp_filename = Some ''scans'',
         tmp_extension = Some ''h5'' \<rparr>"
proof -
  have g: "\<not> get_input_bool example_world ''scans.h5''"
    by (simp add: example_world_def)
  have a: "save [example_kikuchipy_h5ebsd] example_world ''scans.h5'' example_signal
     (OverwriteBool False) None []
     = \<lparr> sr_raised = None, sr_signal = example_signal, sr_writer_calls = [] \<rparr>"
    using save_no_write_frame [where plugins = "[example_kikuchipy_h5ebsd]"
      and ?filename0.0 = "''scans.h5''" and writer = example_kikuchipy_h5ebsd
      and s = example_signal and w = example_world and overwrite = "OverwriteBool False"
      and add_scan = None and kwargs = "[]"] g
    by (simp add: example_save_facts)
  have st: "add_scan_step example_world example_kikuchipy_h5ebsd (save_filename ''scans.h5'')
      (isfile example_world (save_filename ''scans.h5'')) (OverwriteBool True) None []
      = (OverwriteBool True, [])"
    by (simp add: add_scan_step_def)
  have d: "decide_write example_world (save_filename ''scans.h5'')
      (isfile example_world (save_filename ''scans.h5'')) (OverwriteBool True) = Inr True"
    by (simp add: decide_write_def)
  have p: "os_path_split (abspath example_world ''scans.h5'') = (''/data'', ''scans.h5'')"
    by (simp add: os_path_split_def rfind_def example_world_def str_rstrip_def)
  have e: "splitext ''scans.h5'' = (''scans'', ''.h5'')"
    by (simp add: splitext_def rfind_def)
  have w: "file_writer example_kikuchipy_h5ebsd ''scans.h5'' example_signal [] = None"
    by (simp add: example_kikuchipy_h5ebsd_def)
  have b: "sig_tmp_parameters (sr_signal (save [example_kikuchipy_h5ebsd] example_world
     ''scans.h5'' example_signal (OverwriteBool True) None []))
     = \<lparr> tmp_folder = Some ''/data'', tmp_filename = Some ''scans'',
         tmp_extension = Some ''h5'' \<rparr>"
    using save_unfold [OF _ _ _ st d, of "[example_kikuchipy_h5ebsd]" example_signal]
    by (simp add: example_save_facts p e w)
  show ?thesis using a b by simp
qed

section \<open>Verification: chunk planner\<close>

lemma map_of_fold_update:
  "map_of (fold (\<lambda>i. AList.update i v) ks d) k = (if k \<in> set ks then Some v else map_of d k)"
  by (induction ks arbitrary: d) (auto simp: update_conv')

text \<open>
  Claim C8.  Let the normalisation routine resolve \<open>-1\<close> to the whole axis.  Then in
  every chunk tuple \<open>get_chunking\<close> returns, each signal axis (the axes from \<open>nav_dim\<close>
  up to \<open>nav_dim + sig_dim\<close>) is one block of the full length of that axis, for every
  shape, split, data type, chunk shape and byte budget, with or without a signal.
\<close>

theorem get_chunking_signal_axes_whole:
  assumes "honours_whole_axis normalize_chunks"
    and "get_chunking normalize_chunks sig data_shape nav_dim sig_dim chunk_shape chunk_bytes dtype
           = Inr chunks"
    and "(case sig of None \<Rightarrow> data_shape | Some s \<Rightarrow> Some (shape (sig_data s))) = Some shp"
    and "(case sig of None \<Rightarrow> nav_dim
          | Some s \<Rightarrow> Some (am_navigation_dimension (sig_axes_manager s))) = Some nav"
    and "(case sig of None \<Rightarrow> sig_dim
          | Some s \<Rightarrow> Some (am_signal_dimension (sig_axes_manager s))) = Some sg"
    and "nav \<le> i" and "i < nav + sg" and "i < length shp"
  shows "i < length chunks \<and> chunks ! i = [shp ! i]"
proof -
  let ?d0 = "fold (\<lambda>i. AList.update i
                (case chunk_shape of None \<Rightarrow> Auto | Some c \<Rightarrow> Blocksize c)) [0..<nav] []"
  let ?d = "fold (\<lambda>i. AList.update i (Blocksize (- 1))) [nav..<nav + sg] ?d0"
  from assms(2-5) obtain t where call: "normalize_chunks ?d (Some shp) chunk_bytes t = Inr chunks"
    unfolding get_chunking_def Let_def
    by (auto split: sum.splits option.splits)
  have whole: "map_of ?d i = Some (Blocksize (- 1))"
    using assms(6,7) by (simp add: map_of_fold_update)
  from assms(1) call whole assms(8) show ?thesis
    unfolding honours_whole_axis_def by blast
qed

lemma example_normalize_honours: "honours_whole_axis example_normalize"
  unfolding honours_whole_axis_def example_normalize_def
  by auto

text \<open>
  Witness for C8: shape (3, 3, 60, 60), two navigation and two signal axes, navigation
  chunk shape 2.
\<close>

theorem get_chunking_signal_axes_whole_witness:
  "get_chunking example_normalize None (Some [3, 3, 60, 60]) (Some 2) (Some 2) (Some 2)
     30000000 (Some ''uint8'') = Inr [[2, 1], [2, 1], [60], [60]] \<and>
   [[2, 1], [2, 1], [60], [60]] ! 2 = [[3, 3, 60, 60] ! 2] \<and>
   [[2, 1], [2, 1], [60], [60]] ! 3 = [[3, 3, 60 :: nat, 60] ! 3]"
proof -
  have u2: "[0..<2] = [0, 1]" "[2..<2 + 2] = [2, 3]" "[0..<4] = [0, 1, 2, 3]"
    by (simp_all add: upt_rec)
  have g: "get_chunking example_normalize None (Some [3, 3, 60, 60]) (Some 2) (Some 2) (Some 2)
     30000000 (Some ''uint8'') = Inr [[2, 1], [2, 1], [60], [60]]"
    by (simp add: get_chunking_def example_normalize_def u2 blocks_def)
  from get_chunking_signal_axes_whole [OF example_normalize_honours g, of "[3, 3, 60, 60]" 2 2 2]
    get_chunking_signal_axes_whole [OF example_normalize_honours g, of "[3, 3, 60, 60]" 2 2 3]
  show ?thesis using g by simp
qed

section \<open>Verification: rechunk planner\<close>

lemma new_chunks_loop_entries:
  "new_chunks_loop cd old chunks ks = Inr new \<Longrightarrow>
   length new = length ks \<and>
   (\<forall>j < length ks.
      (map_of cd (ks ! j) = Some (Blocksize (- 1)) \<longrightarrow> new ! j = old ! (ks ! j)) \<and>
      (\<forall>c. map_of cd (ks ! j) = Some c \<and> c \<noteq> Blocksize (- 1) \<longrightarrow>
           ks ! j < length chunks \<and> new ! j = chunks ! (ks ! j)))"
proof (induction ks arbitrary: new)
  case Nil
  then show ?case by simp
next
  case (Cons k ks)
  from Cons.prems obtain c entry rest where
    c: "map_of cd k = Some c" and
    e: "(if c = Blocksize (- 1)
         then (if k < length old then Inr (old ! k) else Inl IndexError)
         else (if k < length chunks then Inr (chunks ! k) else Inl IndexError)) = Inr entry" and
    r: "new_chunks_loop cd old chunks ks = Inr rest" and
    n: "new = entry # rest"
    by (auto split: option.splits sum.splits)
  from Cons.IH [OF r] have ih: "length rest = length ks"
    "\<forall>j < length ks.
      (map_of cd (ks ! j) = Some (Blocksize (- 1)) \<longrightarrow> rest ! j = old ! (ks ! j)) \<and>
      (\<forall>c. map_of cd (ks ! j) = Some c \<and> c \<noteq> Blocksize (- 1) \<longrightarrow>
           ks ! j < length chunks \<and> rest ! j = chunks ! (ks ! j))"
    by simp_all
  have hd: "(map_of cd k = Some (Blocksize (- 1)) \<longrightarrow> entry = old ! k) \<and>
      (\<forall>c'. map_of cd k = Some c' \<and> c' \<noteq> Blocksize (- 1) \<longrightarrow>
           k < length chunks \<and> entry = chunks ! k)"
    using c e by (auto split: if_splits)
  show ?case
  proof (intro conjI allI impI)
    show "length new = length (k # ks)" using n ih(1) by simp
  next
    fix j assume "j < length (k # ks)" "map_of cd ((k # ks) ! j) = Some (Blocksize (- 1))"
    then show "new ! j = old ! ((k # ks) ! j)"
      using n ih(2) hd by (cases j) auto
  next
    fix j c' assume "j < length (k # ks)"
      "map_of cd ((k # ks) ! j) = Some c' \<and> c' \<noteq> Blocksize (- 1)"
    then show "(k # ks) ! j < length chunks" "new ! j = chunks ! ((k # ks) ! j)"
      using n ih(2) hd by (cases j; auto)+
  qed
qed

lemma length_four: "length xs = 4 \<Longrightarrow> \<exists>a b c d. xs = [a, b, c, d]"
  by (cases xs; simp; cases "tl xs"; simp; cases "tl (tl xs)"; simp; cases "tl (tl (tl xs))"; simp)

lemma argmin_pair: "argmin [a, b] = (if a \<le> b then 0 else 1)"
  by (auto simp: argmin_def min_def)

lemma reduce_chunks_dict_two_nav:
  assumes cs: "da_chunksize a = [c0, c1, c2, c3]"
    and "real_of_int (merge_test_value [c0, c1, c2, c3] (if c0 \<le> c1 then 0 else 1)) < chunk_bytes"
  shows "reduce_chunks_dict a chunk_bytes =
     AList.update (if c0 \<le> c1 then 0 else 1) (Blocksize (- 1))
       [(0, Auto), (1, Auto), (2, Blocksize (- 1)), (3, Blocksize (- 1))]"
proof -
  have u: "[0..<2] = [0, 1]" "[2..<2 + 2] = [2, 3]"
    by (simp_all add: upt_rec)
  show ?thesis
    using assms(2) unfolding reduce_chunks_dict_def Let_def cs
    by (cases "c0 \<le> c1") (simp_all add: u argmin_pair)
qed

text \<open>
  Claim C4, as amended.  For a lazy array of rank 4 (two navigation axes, two signal
  axes), let \<open>idx_min\<close> be the navigation axis with the smaller chunk extent (the first
  on a tie).  When that extent times the two signal chunk extents times 4, computed in
  64-bit integers, is under \<open>chunk_bytes\<close>, the dictionary handed to the normalisation
  routine asks for \<open>-1\<close> on \<open>idx_min\<close> and on both signal axes and for \<open>"auto"\<close> on the
  other navigation axis only; and in the returned tuple the entries of \<open>idx_min\<close> and of
  the signal axes are the original chunks of those axes, while the other navigation
  axis has the chunks the routine computed under the budget.
\<close>

theorem reduce_chunks_two_navigation_axes:
  assumes "length (da_chunks a) = 4"
    and "idx_min = argmin (take 2 (da_chunksize a))"
    and "real_of_int (merge_test_value (da_chunksize a) idx_min) < chunk_bytes"
    and "reduce_chunks normalize_chunks a chunk_bytes dtype_out = Inr new_chunks"
  shows "idx_min < 2 \<and>
     da_chunksize a ! idx_min \<le> da_chunksize a ! (1 - idx_min) \<and>
     map_of (reduce_chunks_dict a chunk_bytes) idx_min = Some (Blocksize (- 1)) \<and>
     map_of (reduce_chunks_dict a chunk_bytes) (1 - idx_min) = Some Auto \<and>
     map_of (reduce_chunks_dict a chunk_bytes) 2 = Some (Blocksize (- 1)) \<and>
     map_of (reduce_chunks_dict a chunk_bytes) 3 = Some (Blocksize (- 1)) \<and>
     (\<exists>chunks. normalize_chunks (reduce_chunks_dict a chunk_bytes) (Some (da_shape a))
                  chunk_bytes dtype_out = Inr chunks \<and>
        1 - idx_min < length chunks \<and>
        new_chunks ! (1 - idx_min) = chunks ! (1 - idx_min)) \<and>
     length new_chunks = 4 \<and>
     new_chunks ! idx_min = da_chunks a ! idx_min \<and>
     new_chunks ! 2 = da_chunks a ! 2 \<and>
     new_chunks ! 3 = da_chunks a ! 3"
proof -
  have len: "length (da_chunksize a) = 4"
    using assms(1) by (simp add: da_chunksize_def)
  from length_four [OF len] obtain c0 c1 c2 c3 where cs: "da_chunksize a = [c0, c1, c2, c3]"
    by blast
  have idx: "idx_min = (if c0 \<le> c1 then 0 else 1)"
    using assms(2) cs by (simp add: argmin_pair)
  have test: "real_of_int (merge_test_value [c0, c1, c2, c3] (if c0 \<le> c1 then 0 else 1))
      < chunk_bytes"
    using assms(3) idx cs by simp
  have cd: "reduce_chunks_dict a chunk_bytes =
     AList.update idx_min (Blocksize (- 1))
       [(0, Auto), (1, Auto), (2, Blocksize (- 1)), (3, Blocksize (- 1))]"
    using reduce_chunks_dict_two_nav [OF cs test] idx by simp
  have m: "map_of (reduce_chunks_dict a chunk_bytes) idx_min = Some (Blocksize (- 1))"
    "map_of (reduce_chunks_dict a chunk_bytes) (1 - idx_min) = Some Auto"
    "map_of (reduce_chunks_dict a chunk_bytes) 2 = Some (Blocksize (- 1))"
    "map_of (reduce_chunks_dict a chunk_bytes) 3 = Some (Blocksize (- 1))"
    using idx by (simp_all add: cd update_conv')
  from assms(4) obtain chunks where
    call: "normalize_chunks (reduce_chunks_dict a chunk_bytes) (Some (da_shape a))
             chunk_bytes dtype_out = Inr chunks" and
    loop: "new_chunks_loop (reduce_chunks_dict a chunk_bytes) (da_chunks a) chunks [0..<4]
             = Inr new_chunks"
    unfolding reduce_chunks_def Let_def using len
    by (auto split: sum.splits)
  note ent = new_chunks_loop_entries [OF loop]
  have l4: "length new_chunks = 4" using ent by simp
  have whole: "new_chunks ! j = da_chunks a ! j"
    if "j < 4" "map_of (reduce_chunks_dict a chunk_bytes) j = Some (Blocksize (- 1))" for j
    using ent that by simp
  have auto_axis: "j < length chunks \<and> new_chunks ! j = chunks ! j"
    if "j < 4" "map_of (reduce_chunks_dict a chunk_bytes) j = Some Auto" for j
    using ent that by simp
  have i2: "idx_min < 2" "1 - idx_min < 4" "idx_min < 4" using idx by simp_all
  have small: "da_chunksize a ! idx_min \<le> da_chunksize a ! (1 - idx_min)"
    using cs idx by (cases "c0 \<le> c1") simp_all
  show ?thesis
    using i2(1) small m call l4 auto_axis [OF i2(2) m(2)] whole [OF i2(3) m(1)]
      whole [of 2, OF _ m(3)] whole [of 3, OF _ m(4)]
    by auto
qed

text \<open>
  Witness for C4: chunks ((2, 1), (3,), (60,), (60,)) and 8 MB.  The first axis is
  the smaller one and keeps its two blocks.
\<close>

theorem reduce_chunks_two_navigation_axes_witness:
  "argmin (take 2 (da_chunksize example_dask_array)) = 0 \<and>
   merge_test_value (da_chunksize example_dask_array) 0 = 28800 \<and>
   reduce_chunks_dict example_dask_array 8000000
     = [(0, Blocksize (- 1)), (1, Auto), (2, Blocksize (- 1)), (3, Blocksize (- 1))] \<and>
   reduce_chunks example_normalize example_dask_array 8000000 ''float32''
     = Inr [[2, 1], [3], [60], [60]]"
proof -
  have cs: "da_chunksize example_dask_array = [2, 3, 60, 60]"
    by (simp add: da_chunksize_def example_dask_array_def)
  have sh: "da_shape example_dask_array = [3, 3, 60, 60]"
    by (simp add: da_shape_def example_dask_array_def)
  have oc: "da_chunks example_dask_array = [[2, 1], [3], [60], [60]]"
    by (simp add: example_dask_array_def)
  have am: "argmin (take 2 (da_chunksize example_dask_array)) = 0"
    by (simp add: cs argmin_pair)
  have u: "[0..<2] = [0, 1]" "[2..<2 + 2] = [2, 3]" "[0..<4] = [0, 1, 2, 3]"
    by (simp_all add: upt_rec)
  have mt: "merge_test_value [2, 3, 60, 60] 0 = 28800"
    by (simp add: merge_test_value_def np_prod_def int64_def)
  have cd: "reduce_chunks_dict example_dask_array 8000000
     = [(0, Blocksize (- 1)), (1, Auto), (2, Blocksize (- 1)), (3, Blocksize (- 1))]"
    unfolding reduce_chunks_dict_def Let_def
    by (simp add: cs u argmin_pair mt)
  have r: "reduce_chunks example_normalize example_dask_array 8000000 ''float32''
     = Inr [[2, 1], [3], [60], [60]]"
    unfolding reduce_chunks_def Let_def
    by (simp add: cd sh cs oc u example_normalize_def)
  from reduce_chunks_two_navigation_axes [where a = example_dask_array and idx_min = 0
      and chunk_bytes = 8000000 and normalize_chunks = example_normalize
      and dtype_out = "''float32''" and new_chunks = "[[2, 1], [3], [60], [60]]"]
  show ?thesis using am cd r mt by (simp add: oc cs)
qed

text \<open>
  Counterexample to C4 as stated: an array of shape (2, 3, 5, 5) in one chunk, a
  budget of 180 bytes and one byte per element.  The first navigation axis has the
  smaller chunk extent; merged into one block it gives a chunk of 150 bytes, under the
  budget.  The test of the code compares 2 * 25 * 4 = 200 with the budget, so the axis
  is not forced: the request is \<open>"auto"\<close> on both navigation axes.
\<close>

theorem reduce_chunks_merge_under_budget_counterexample:
  "argmin (take 2 (da_chunksize example_small_dask_array)) = 0 \<and>
   merged_chunk_bytes example_small_dask_array 0 1 = 150 \<and>
   merge_test_value (da_chunksize example_small_dask_array) 0 = 200 \<and>
   reduce_chunks_dict example_small_dask_array 180
     = [(0, Auto), (1, Auto), (2, Blocksize (- 1)), (3, Blocksize (- 1))] \<and>
   reduce_chunks example_normalize example_small_dask_array 180 ''uint8''
     = Inr [[2], [3], [5], [5]]"
proof -
  have cs: "da_chunksize example_small_dask_array = [2, 3, 5, 5]"
    by (simp add: da_chunksize_def example_small_dask_array_def)
  have sh: "da_shape example_small_dask_array = [2, 3, 5, 5]"
    by (simp add: da_shape_def example_small_dask_array_def)
  have oc: "da_chunks example_small_dask_array = [[2], [3], [5], [5]]"
    by (simp add: example_small_dask_array_def)
  have u: "[0..<2] = [0, 1]" "[2..<2 + 2] = [2, 3]" "[0..<4] = [0, 1, 2, 3]"
    by (simp_all add: upt_rec)
  have mt: "merge_test_value [2, 3, 5, 5] 0 = 200"
    by (simp add: merge_test_value_def np_prod_def int64_def)
  have cd: "reduce_chunks_dict example_small_dask_array 180
     = [(0, Auto), (1, Auto), (2, Blocksize (- 1)), (3, Blocksize (- 1))]"
    unfolding reduce_chunks_dict_def Let_def
    by (simp add: cs u argmin_pair mt)
  have r: "reduce_chunks example_normalize example_small_dask_array 180 ''uint8''
     = Inr [[2], [3], [5], [5]]"
    unfolding reduce_chunks_def Let_def
    by (simp add: cd sh cs oc u example_normalize_def)
  show ?thesis
    using cd r mt by (simp add: cs sh merged_chunk_bytes_def argmin_pair)
qed

text \<open>
  The value tested wraps around in 64 bits: signal chunk extents of \<open>2^32\<close> each give 0.
\<close>

lemma merge_test_value_wraps:
  "merge_test_value [1, 1, 4294967296, 4294967296] 0 = 0"
  by (simp add: merge_test_value_def np_prod_def int64_def)

section \<open>Verification: decomposition chunk balancer\<close>

lemma halve_loop_terminates:
  assumes "0 < suggested_size"
  shows "\<exists>r. halve_loop suggested_size s0 s1 = Some r \<and> real (fst r + snd r) < suggested_size"
proof (induction "s0 + s1" arbitrary: s0 s1 rule: less_induct)
  case less
  show ?case
  proof (cases "real (s0 + s1) \<ge> suggested_size")
    case False
    then have "halve_loop suggested_size s0 s1 = Some (s0, s1)"
      by (subst halve_loop.simps) simp
    with False show ?thesis by simp
  next
    case True
    with assms have pos: "0 < s0 + s1" by (cases "s0 + s1") auto
    show ?thesis
    proof (cases "s0 \<ge> s1")
      case True
      with pos have "s0 div 2 + s1 < s0 + s1" by auto
      from less [OF this] obtain r where
        "halve_loop suggested_size (s0 div 2) s1 = Some r \<and> real (fst r + snd r) < suggested_size"
        by blast
      moreover have "halve_loop suggested_size s0 s1 = halve_loop suggested_size (s0 div 2) s1"
        using \<open>real (s0 + s1) \<ge> suggested_size\<close> True by (subst halve_loop.simps) simp
      ultimately show ?thesis by simp
    next
      case False
      with pos have "s0 + s1 div 2 < s0 + s1" by auto
      from less [OF this] obtain r where
        "halve_loop suggested_size s0 (s1 div 2) = Some r \<and> real (fst r + snd r) < suggested_size"
        by blast
      moreover have "halve_loop suggested_size s0 s1 = halve_loop suggested_size s0 (s1 div 2)"
        using \<open>real (s0 + s1) \<ge> suggested_size\<close> False by (subst halve_loop.simps) simp
      ultimately show ?thesis by simp
    qed
  qed
qed

text \<open>
  Claim C9.  For a strictly positive megabyte budget the halving loop started on the
  byte sizes of factors and loadings ends, in a state whose sum is under the budget,
  and \<open>_rechunk_learning_results\<close> returns or raises (it does not run forever).  No
  condition on the shapes is needed for that.
\<close>

theorem rechunk_learning_results_terminates:
  assumes "0 < mbytes_chunk"
  shows "(\<exists>r. halve_loop (mbytes_chunk * 2 ^ 20) (nbytes factors) (nbytes loadings) = Some r \<and>
            real (fst r + snd r) < mbytes_chunk * 2 ^ 20) \<and>
         (\<exists>res. rechunk_learning_results factors loadings mbytes_chunk = Some res)"
proof -
  from assms have pos: "0 < mbytes_chunk * 2 ^ 20" by simp
  from halve_loop_terminates [OF pos] obtain r where
    r: "halve_loop (mbytes_chunk * 2 ^ 20) (nbytes factors) (nbytes loadings) = Some r"
      "real (fst r + snd r) < mbytes_chunk * 2 ^ 20"
    by blast
  obtain a b where ab: "r = (a, b)" by (cases r)
  have "\<exists>res. rechunk_learning_results factors loadings mbytes_chunk = Some res"
    using r(1) ab unfolding rechunk_learning_results_def Let_def
    by simp
  with r show ?thesis by blast
qed

text \<open>
  Witness for C9: 7200000 and 18000 bytes against 1 MB; the loop halves the first
  size three times.
\<close>

theorem rechunk_learning_results_terminates_witness:
  "halve_loop (1 * 2 ^ 20) (nbytes example_factors) (nbytes example_loadings)
     = Some (900000, 18000) \<and>
   rechunk_learning_results example_factors example_loadings 1
     = Some (Inr [(450, - 1), (9, - 1)])"
proof -
  have nb: "nbytes example_factors = 7200000" "nbytes example_loadings = 18000"
    by (simp_all add: nbytes_def example_factors_def example_loadings_def)
  have h: "halve_loop (1 * 2 ^ 20) 7200000 18000 = Some (900000, 18000)"
    by (simp add: halve_loop.simps)
  have sh: "shape example_factors = [3600, 500]" "shape example_loadings = [9, 500]"
    by (simp_all add: example_factors_def example_loadings_def)
  have r: "rechunk_learning_results example_factors example_loadings 1
     = Some (Inr [(450, - 1), (9, - 1)])"
    using h
    by (simp add: rechunk_learning_results_def nb sh Let_def py_int_def)
  from rechunk_learning_results_terminates [of 1 example_factors example_loadings]
  show ?thesis using h r nb by simp
qed

end
